theory Spec2Isabelle
  imports Main "HOL-Library.Word"
begin

unbundle bit_operations_syntax

section \<open>Shared data model\<close>

text \<open>
  The Go sources \<^verbatim>\<open>log_manager.go\<close> and \<^verbatim>\<open>key_registry.go\<close> are embedded
  function by function. Go's \<^verbatim>\<open>uint32\<close>, \<^verbatim>\<open>uint64\<close> and \<^verbatim>\<open>byte\<close> are words, a
  \<^verbatim>\<open>[]byte\<close> is a list of bytes, an \<^verbatim>\<open>error\<close> is a value of the datatype below
  and a Go panic is the third constructor of \<open>outcome\<close>.
\<close>

type_synonym u8 = "8 word"
type_synonym u32 = "32 word"
type_synonym u64 = "64 word"
type_synonym bytes = "8 word list"

datatype error =
    IoEOF
  | ErrTruncate
  | ErrClosed
  | ErrNotExist
  | ErrRetry
  | ErrEncryptionKeyMismatch
  | ErrBadChecksum
  | ErrInvalidDataKeyID
  | ErrSyntax
  | ErrRange
  | ErrInvalidPointer u32 u32
  | ErrIO string
  | ErrNew "error list"
  | Wrapf error string

datatype 'a outcome = Done 'a | Failed error | Panic string

text \<open>The two log families of the value directory; a path is a family and a file id
  (\<^verbatim>\<open>walFilePath(dir, fid)\<close>, \<^verbatim>\<open>vlogFilePath(dir, fid)\<close>).\<close>

datatype family = WAL | VLOG

type_synonym path = "family \<times> u32"

record valuePointer =
  Fid :: u32
  Len :: u32
  Offset :: u32

definition emptyPointer :: valuePointer where
  "emptyPointer = \<lparr>Fid = 0, Len = 0, Offset = 0\<rparr>"

text \<open>The fields of \<^verbatim>\<open>logFile\<close> that the two source files read: the id, the path, the
  append cursor behind \<^verbatim>\<open>fileOffset()\<close>, and whether \<^verbatim>\<open>fd.Close()\<close> has been called
  on its descriptor.\<close>

record logFile =
  lf_fid :: u32
  lf_path :: path
  lf_offset :: u32
  lf_closed :: bool

definition fileOffset :: "logFile \<Rightarrow> u32" where
  "fileOffset lf = lf_offset lf"

definition vlogHeaderSize :: u32 where
  "vlogHeaderSize = 20"

section \<open>openLogManager: choosing the files to replay\<close>

text \<open>
  The loop of lines 67-85. \<^verbatim>\<open>walFiles\<close> is a Go map, ranged over in an unspecified
  order: the order is the list argument. \<open>osRemove\<close> is the result of \<^verbatim>\<open>os.Remove\<close>
  on the WAL file of an id (\<open>None\<close> is success). The state holds \<^verbatim>\<open>manager.maxWalID\<close>,
  \<^verbatim>\<open>filteredWALIDs\<close> and, as an observation of the effect, the ids removed from disk.
\<close>

record walScan =
  maxWalID :: u32
  filteredWALIDs :: "u32 list"
  removedWALIDs :: "u32 list"

definition walScan0 :: walScan where
  "walScan0 = \<lparr>maxWalID = 0, filteredWALIDs = [], removedWALIDs = []\<rparr>"

fun scanWalFiles :: "(u32 \<Rightarrow> error option) \<Rightarrow> bool \<Rightarrow> u32 \<Rightarrow> u32 list \<Rightarrow> walScan
    \<Rightarrow> error + walScan" where
  "scanWalFiles osRemove readOnly walhead [] st = Inr st"
| "scanWalFiles osRemove readOnly walhead (fid # fids) st =
     (let st1 = (if fid > maxWalID st then st\<lparr>maxWalID := fid\<rparr> else st) in
      if fid > walhead then
        (if readOnly then scanWalFiles osRemove readOnly walhead fids st1
         else (case osRemove fid of
                 Some err \<Rightarrow> Inl (Wrapf err ''Error while removing log file'')
               | None \<Rightarrow> scanWalFiles osRemove readOnly walhead fids
                           (st1\<lparr>removedWALIDs := removedWALIDs st1 @ [fid]\<rparr>)))
      else scanWalFiles osRemove readOnly walhead fids
             (st1\<lparr>filteredWALIDs := filteredWALIDs st1 @ [fid]\<rparr>))"

text \<open>The loop of lines 94-105 over the vlog ids, with \<^verbatim>\<open>manager.maxVlogID\<close> and
  \<^verbatim>\<open>filteredVlogIDs\<close> as the state.\<close>

fun scanVlogFiles :: "u32 \<Rightarrow> u32 list \<Rightarrow> u32 \<times> u32 list \<Rightarrow> u32 \<times> u32 list" where
  "scanVlogFiles vheadFid [] st = st"
| "scanVlogFiles vheadFid (fid # fids) (maxVlogID, filteredVlogIDs) =
     (let m = (if fid > maxVlogID then fid else maxVlogID) in
      if fid < vheadFid then scanVlogFiles vheadFid fids (m, filteredVlogIDs)
      else scanVlogFiles vheadFid fids (m, filteredVlogIDs @ [fid]))"

text \<open>Lines 62-112: both scans, then both id lists sorted ascending.\<close>

definition selectLogFiles :: "(u32 \<Rightarrow> error option) \<Rightarrow> bool \<Rightarrow> valuePointer \<Rightarrow> u32
    \<Rightarrow> u32 list \<Rightarrow> u32 list \<Rightarrow> error + (walScan \<times> u32 \<times> u32 list)" where
  "selectLogFiles osRemove readOnly vhead walhead walFiles vlogFiles =
     (case scanWalFiles osRemove readOnly walhead walFiles walScan0 of
        Inl err \<Rightarrow> Inl err
      | Inr ws \<Rightarrow>
          (let (maxVlogID, filteredVlogIDs) = scanVlogFiles (Fid vhead) vlogFiles (0, []) in
           Inr (ws\<lparr>filteredWALIDs := sort (filteredWALIDs ws)\<rparr>,
                maxVlogID, sort filteredVlogIDs)))"

section \<open>Read: the guard on pointers into the active vlog\<close>

text \<open>
  The part of \<^verbatim>\<open>logManager\<close> that \<^verbatim>\<open>Read\<close> and \<^verbatim>\<open>write\<close> use. \<^verbatim>\<open>wal\<close> and \<^verbatim>\<open>vlog\<close>
  are pointers, left nil by \<^verbatim>\<open>openLogManager\<close> in read-only mode, hence options;
  \<open>memoryMap\<close> is \<^verbatim>\<open>opt.ValueLogLoadingMode == options.MemoryMap\<close>.
\<close>

record logManager =
  wal :: "logFile option"
  vlog :: "logFile option"
  entriesWritten :: u32
  maxVlogID :: u32
  vlogFileMap :: "u32 \<rightharpoonup> logFile"
  memoryMap :: bool

record header =
  klen :: u32
  vlen :: u32

text \<open>\<^verbatim>\<open>getFileRLocked\<close> (lines 632-642): the map lookup; the locks have no counterpart
  in a sequential model.\<close>

definition getFileRLocked :: "logManager \<Rightarrow> u32 \<Rightarrow> error + logFile" where
  "getFileRLocked lm fid =
     (case vlogFileMap lm fid of None \<Rightarrow> Inl ErrRetry | Some ret \<Rightarrow> Inr ret)"

text \<open>\<^verbatim>\<open>readValueBytes\<close> (lines 646-653). \<open>lfRead\<close> stands for \<^verbatim>\<open>logFile.read\<close>, which
  is declared outside the two files.\<close>

definition readValueBytes :: "(logFile \<Rightarrow> valuePointer \<Rightarrow> error + bytes) \<Rightarrow> logManager
    \<Rightarrow> valuePointer \<Rightarrow> (bytes \<times> logFile option \<times> error option)" where
  "readValueBytes lfRead lm vp =
     (case getFileRLocked lm (Fid vp) of
        Inl err \<Rightarrow> ([], None, Some err)
      | Inr lf \<Rightarrow>
          (case lfRead lf vp of
             Inl err \<Rightarrow> ([], Some lf, Some err)
           | Inr buf \<Rightarrow> (buf, Some lf, None)))"

text \<open>\<^verbatim>\<open>getUnlockCallback\<close> (lines 619-628): the callback is identified by the file whose
  read lock it releases.\<close>

definition getUnlockCallback :: "logManager \<Rightarrow> logFile option \<Rightarrow> logFile option" where
  "getUnlockCallback lm lf =
     (case lf of None \<Rightarrow> None
      | Some f \<Rightarrow> if memoryMap lm then Some f else None)"

text \<open>
  Lines 598-614 of \<^verbatim>\<open>Read\<close>. \<open>hdecode\<close> is \<^verbatim>\<open>header.Decode\<close>, \<open>encrypted\<close> is
  \<^verbatim>\<open>encryptionEnabled\<close> and \<open>decryptKV\<close> is \<^verbatim>\<open>logFile.decryptKV\<close>, all three declared
  outside the two files. The result is Go's triple of value bytes, unlock callback and
  error. A slice expression out of range panics; the capacity of a buffer is taken to
  be its length.
\<close>

definition sliceKV :: "header \<Rightarrow> bytes \<Rightarrow> logFile option
    \<Rightarrow> (bytes \<times> logFile option \<times> error option) outcome" where
  "sliceKV h kv cb =
     (let lo = unat (klen h); hi = unat (klen h + vlen h) in
      if lo \<le> hi \<and> hi \<le> length kv then Done (take (hi - lo) (drop lo kv), cb, None)
      else Panic ''slice bounds out of range'')"

definition readRecord :: "(logFile \<Rightarrow> valuePointer \<Rightarrow> error + bytes) \<Rightarrow> (bytes \<Rightarrow> header \<times> nat)
    \<Rightarrow> (logFile \<Rightarrow> bool) \<Rightarrow> (logFile \<Rightarrow> bytes \<Rightarrow> u32 \<Rightarrow> error + bytes)
    \<Rightarrow> logManager \<Rightarrow> valuePointer \<Rightarrow> (bytes \<times> logFile option \<times> error option) outcome" where
  "readRecord lfRead hdecode encrypted decryptKV lm vp =
     (case readValueBytes lfRead lm vp of (buf, lf, err) \<Rightarrow>
        (let cb = getUnlockCallback lm lf in
         case err of
           Some e \<Rightarrow> Done ([], cb, Some e)
         | None \<Rightarrow>
             (case hdecode buf of (h, headerLen) \<Rightarrow>
                if headerLen > length buf then Panic ''slice bounds out of range''
                else
                  (let kv = drop headerLen buf in
                   case lf of
                     None \<Rightarrow> Panic ''nil pointer dereference''
                   | Some f \<Rightarrow>
                       if encrypted f then
                         (case decryptKV f kv (Offset vp) of
                            Inl e \<Rightarrow> Done ([], cb, Some e)
                          | Inr kv' \<Rightarrow> sliceKV h kv' cb)
                       else sliceKV h kv cb))))"

text \<open>
  \<^verbatim>\<open>Read\<close> (lines 590-615). The guard of line 593 comes first; its second conjunct is
  evaluated only when the first holds, and dereferences \<^verbatim>\<open>lm.vlog\<close>. The error of
  line 594 carries the two offsets of its message.
\<close>

definition Read :: "(logFile \<Rightarrow> valuePointer \<Rightarrow> error + bytes) \<Rightarrow> (bytes \<Rightarrow> header \<times> nat)
    \<Rightarrow> (logFile \<Rightarrow> bool) \<Rightarrow> (logFile \<Rightarrow> bytes \<Rightarrow> u32 \<Rightarrow> error + bytes)
    \<Rightarrow> logManager \<Rightarrow> valuePointer \<Rightarrow> (bytes \<times> logFile option \<times> error option) outcome" where
  "Read lfRead hdecode encrypted decryptKV lm vp =
     (let maxFid = maxVlogID lm in
      if Fid vp = maxFid then
        (case vlog lm of
           None \<Rightarrow> Panic ''nil pointer dereference''
         | Some active \<Rightarrow>
             if Offset vp \<ge> fileOffset active
             then Done ([], None, Some (ErrInvalidPointer (Offset vp) (fileOffset active)))
             else readRecord lfRead hdecode encrypted decryptKV lm vp)
      else readRecord lfRead hdecode encrypted decryptKV lm vp)"

section \<open>Log entries and iterateEntries\<close>

text \<open>The fields of \<^verbatim>\<open>Entry\<close> that the two files read. \<^verbatim>\<open>hlen\<close> is a Go \<^verbatim>\<open>int\<close>
  holding a length.\<close>

record entry =
  Key :: bytes
  Value :: bytes
  meta :: u8
  hlen :: nat
  offset :: u32
  skipVlog :: bool

text \<open>\<^verbatim>\<open>uint32(int(e.hlen) + len(e.Key) + len(e.Value) + crc32.Size)\<close>, as computed at
  lines 431 and 482; the conversion to \<^verbatim>\<open>uint32\<close> truncates.\<close>

definition entryLen :: "entry \<Rightarrow> u32" where
  "entryLen e = word_of_nat (hlen e + length (Key e) + length (Value e) + 4)"

text \<open>The meta bits \<^verbatim>\<open>bitTxn\<close> and \<^verbatim>\<open>bitFinTxn\<close> and the function \<^verbatim>\<open>y.ParseTs\<close> are
  declared outside the two files: they are parameters of the model.\<close>

record deps =
  bitTxn :: u8
  bitFinTxn :: u8
  ParseTs :: "bytes \<Rightarrow> u64"

text \<open>\<^verbatim>\<open>strconv.ParseUint(s, 10, 64)\<close> of the Go library: a non-empty run of decimal
  digits, read left to right, whose value fits 64 bits.\<close>

fun parseDigits :: "nat \<Rightarrow> bytes \<Rightarrow> error + u64" where
  "parseDigits n [] = Inr (word_of_nat n)"
| "parseDigits n (c # cs) =
     (if 48 \<le> c \<and> c \<le> 57 then
        (let n1 = n * 10 + (unat c - 48) in
         if n1 \<ge> 2 ^ 64 then Inl ErrRange else parseDigits n1 cs)
      else Inl ErrSyntax)"

definition ParseUint :: "bytes \<Rightarrow> error + u64" where
  "ParseUint s = (if s = [] then Inl ErrSyntax else parseDigits 0 s)"

text \<open>
  A \<^verbatim>\<open>logIterator\<close>. What \<^verbatim>\<open>entryReader.Entry\<close> (declared outside the two files) will
  return on its successive calls is part of the iterator: the entries it will decode, in
  order, and the error it returns once they are used up. \<open>source\<close> names the file the
  iterator was created on, and \<open>recordOffset\<close> is the field of its \<^verbatim>\<open>safeRead\<close>.
\<close>

record logIterator =
  source :: path
  pending :: "entry list"
  lastErr :: error
  recordOffset :: u32
  validOffset :: u32

text \<open>
  The loop of \<^verbatim>\<open>iterateEntries\<close> (lines 476-513) over the entries still to be decoded.
  Arguments after the parameters: \<^verbatim>\<open>commitTs\<close>, \<^verbatim>\<open>entries\<close>, the iterator's record offset
  and valid offset. The result is the triple the function returns, then the entries left
  undecoded and the two offsets.
\<close>

type_synonym batch = "entry list \<times> u64 \<times> error option"

fun iterLoop :: "deps \<Rightarrow> error \<Rightarrow> u64 \<Rightarrow> entry list \<Rightarrow> u32 \<Rightarrow> u32 \<Rightarrow> entry list
    \<Rightarrow> batch \<times> entry list \<times> u32 \<times> u32" where
  "iterLoop c lerr commitTs entries roff voff [] = (([], 0, Some lerr), [], roff, voff)"
| "iterLoop c lerr commitTs entries roff voff (e # rest) =
     (let roff1 = roff + entryLen e in
      if meta e AND bitTxn c > 0 then
        (let txnTs = ParseTs c (Key e);
             commitTs1 = (if commitTs = 0 then txnTs else commitTs) in
         if commitTs1 \<noteq> txnTs then (([], 0, Some ErrTruncate), rest, roff1, voff)
         else iterLoop c lerr commitTs1 (entries @ [e]) roff1 voff rest)
      else if meta e AND bitFinTxn c > 0 then
        (case ParseUint (Value e) of
           Inl err \<Rightarrow> (([], 0, Some ErrTruncate), rest, roff1, voff)
         | Inr txnTs \<Rightarrow>
             if commitTs \<noteq> txnTs then (([], 0, Some ErrTruncate), rest, roff1, voff)
             else ((entries, commitTs, None), rest, roff1, roff1))
      else iterLoop c lerr commitTs entries roff1 voff rest)"

definition iterateEntries :: "deps \<Rightarrow> logIterator \<Rightarrow> batch \<times> logIterator" where
  "iterateEntries c it =
     (case iterLoop c (lastErr it) 0 [] (recordOffset it) (validOffset it) (pending it) of
        (res, rest, roff, voff) \<Rightarrow>
          (res, it\<lparr>pending := rest, recordOffset := roff, validOffset := voff\<rparr>))"

section \<open>The replayer\<close>

text \<open>
  \<^verbatim>\<open>logFile.open\<close>, \<^verbatim>\<open>logFile.bootstrap\<close> and the descriptor's \<^verbatim>\<open>Seek\<close>, \<^verbatim>\<open>Stat\<close> and
  \<^verbatim>\<open>Close\<close> act on the disk. Their results are the fields of \<open>disk\<close>: for a path, the
  error of opening it or the size that \<^verbatim>\<open>fileOffset()\<close> reports after opening, the error
  of bootstrapping it, of seeking in it and of closing it, the error or size of \<^verbatim>\<open>Stat\<close>,
  and what a reader positioned at an offset decodes from it. Every call is recorded, in
  order, as an \<open>event\<close>, together with the calls of the replay callback.
\<close>

datatype flag = NoFlag | ReadOnlyFlag | SyncFlag

record options =
  ReadOnly :: bool
  SyncWrites :: bool

record disk =
  openRes :: "path \<Rightarrow> error + u32"
  bootstrapRes :: "path \<Rightarrow> error option"
  seekRes :: "path \<Rightarrow> u32 \<Rightarrow> error option"
  statRes :: "path \<Rightarrow> error + int"
  closeRes :: "path \<Rightarrow> error option"
  decoded :: "path \<Rightarrow> u32 \<Rightarrow> entry list \<times> error"

datatype event =
    Opened path flag
  | Bootstrapped path
  | Sought path u32
  | Statted path
  | Closed path
  | Iterated path
  | Replayed entry valuePointer

record logReplayer =
  walIDs :: "u32 list"
  vlogIDs :: "u32 list"
  vhead :: valuePointer
  opt :: options

definition openLog :: "disk \<Rightarrow> path \<Rightarrow> error + logFile" where
  "openLog d p =
     (case openRes d p of
        Inl err \<Rightarrow> Inl err
      | Inr off \<Rightarrow> Inr \<lparr>lf_fid = snd p, lf_path = p, lf_offset = off, lf_closed = False\<rparr>)"

text \<open>Modelled from the spec: \<^verbatim>\<open>logFile.bootstrap\<close> is declared outside the two files;
  it "writes a fresh 20-byte header" and "sets \<^verbatim>\<open>writable_offset = 20\<close>".\<close>

definition bootstrap :: "disk \<Rightarrow> logFile \<Rightarrow> error + logFile" where
  "bootstrap d lf =
     (case bootstrapRes d (lf_path lf) of
        Some err \<Rightarrow> Inl err
      | None \<Rightarrow> Inr (lf\<lparr>lf_offset := vlogHeaderSize\<rparr>))"

text \<open>\<^verbatim>\<open>newLogIterator\<close> (lines 455-471). The new iterator's \<^verbatim>\<open>validOffset\<close> is the zero
  value of the field.\<close>

definition newLogIterator :: "disk \<Rightarrow> logFile \<Rightarrow> u32 \<Rightarrow> error + logIterator" where
  "newLogIterator d log off =
     (case seekRes d (lf_path log) off of
        Some err \<Rightarrow> Inl err
      | None \<Rightarrow> Inr \<lparr>source = lf_path log,
                      pending = fst (decoded d (lf_path log) off),
                      lastErr = snd (decoded d (lf_path log) off),
                      recordOffset = off, validOffset = 0\<rparr>)"

text \<open>The closure \<^verbatim>\<open>isTruncateNeeded\<close> (lines 308-314). \<^verbatim>\<open>Stat\<close> on a closed descriptor
  is an error.\<close>

definition isTruncateNeeded :: "disk \<Rightarrow> u32 \<Rightarrow> logFile \<Rightarrow> error + bool" where
  "isTruncateNeeded d validOff log =
     (if lf_closed log then Inl ErrClosed
      else (case statRes d (lf_path log) of
              Inl err \<Rightarrow> Inl err
            | Inr sz \<Rightarrow> Inr (sz \<noteq> uint validOff)))"

text \<open>The local variables of \<^verbatim>\<open>replay\<close> that live across loop iterations, and the
  events so far. \<^verbatim>\<open>vlogIterator\<close> can be nil: line 401 drops the error of
  \<^verbatim>\<open>newLogIterator\<close>.\<close>

record rstate =
  walFile :: logFile
  vlogFile :: logFile
  walIterator :: logIterator
  vlogIterator :: "logIterator option"
  currentWalIndex :: nat
  currentVlogIndex :: nat
  walBatch :: batch
  vlogBatch :: batch
  truncateNeeded :: bool
  trace :: "event list"

type_synonym verdict = "unit outcome \<times> event list"

text \<open>Lines 443-446, after the loop.\<close>

definition finish :: "rstate \<Rightarrow> verdict" where
  "finish st =
     (if truncateNeeded st then (Panic ''Sup implement this guy.'', trace st)
      else (Done (), trace st))"

text \<open>The two \<^verbatim>\<open>for ... range\<close> loops of lines 422-437: the callback on each entry with
  its pointer, stopping at the first error.\<close>

fun replayEach :: "(entry \<Rightarrow> valuePointer \<Rightarrow> error option) \<Rightarrow> (entry \<times> valuePointer) list
    \<Rightarrow> event list \<Rightarrow> error option \<times> event list" where
  "replayEach replayFn [] tr = (None, tr)"
| "replayEach replayFn ((e, vp) # rest) tr =
     (case replayFn e vp of
        Some err \<Rightarrow> (Some err, tr @ [Replayed e vp])
      | None \<Rightarrow> replayEach replayFn rest (tr @ [Replayed e vp]))"

text \<open>Lines 322-362: the WAL stream is at its end. The \<^verbatim>\<open>walFile\<close> of line 344 is a new
  variable of the inner block: the outer \<^verbatim>\<open>walFile\<close> stays the closed file.\<close>

definition advanceWal :: "deps \<Rightarrow> disk \<Rightarrow> flag \<Rightarrow> logReplayer \<Rightarrow> rstate \<Rightarrow> rstate + verdict" where
  "advanceWal c d fl lp st =
     (let tr1 = trace st @ [Statted (lf_path (walFile st))] in
      case isTruncateNeeded d (validOffset (walIterator st)) (walFile st) of
        Inl err \<Rightarrow>
          Inr (Failed (Wrapf err ''Error while checking truncation for the wal file''), tr1)
      | Inr tn \<Rightarrow>
          if tn then Inr (finish (st\<lparr>truncateNeeded := True, trace := tr1\<rparr>))
          else
            (let tr2 = tr1 @ [Closed (lf_path (walFile st))] in
             case closeRes d (lf_path (walFile st)) of
               Some err \<Rightarrow>
                 Inr (Failed (Wrapf err ''Error while closing the WAL file in replay''), tr2)
             | None \<Rightarrow>
                 (let st1 = st\<lparr>walFile := (walFile st)\<lparr>lf_closed := True\<rparr>,
                                truncateNeeded := False, trace := tr2\<rparr> in
                  if length (walIDs lp) < currentWalIndex st then Inr (finish st1)
                  else
                    (let i = currentWalIndex st + 1 in
                     if length (walIDs lp) \<le> i then Inr (Panic ''index out of range'', tr2)
                     else
                       (let p = (WAL, walIDs lp ! i); tr3 = tr2 @ [Opened p fl] in
                        case openLog d p of
                          Inl err \<Rightarrow>
                            Inr (Failed (Wrapf err
                                   ''Error while opening WAL file in logReplayer''), tr3)
                        | Inr newWal \<Rightarrow>
                            if fileOffset newWal < vlogHeaderSize
                            then Inr (finish (st1\<lparr>currentWalIndex := i,
                                                   truncateNeeded := True, trace := tr3\<rparr>))
                            else
                              (let tr4 = tr3 @ [Sought p vlogHeaderSize] in
                               case newLogIterator d newWal vlogHeaderSize of
                                 Inl err \<Rightarrow> Inr (Panic ''nil pointer dereference'', tr4)
                               | Inr it \<Rightarrow>
                                   (case iterateEntries c it of (wb, it1) \<Rightarrow>
                                      Inl (st1\<lparr>currentWalIndex := i, walIterator := it1,
                                               walBatch := wb,
                                               trace := tr4 @ [Iterated (source it)]\<rparr>))))))))"

text \<open>Lines 364-404: the vlog stream is at its end. The next file is named by
  \<^verbatim>\<open>lp.walIDs[currentVlogIndex]\<close> (lines 387-388), and the next batch is read from
  \<^verbatim>\<open>walIterator\<close> (line 402).\<close>

definition advanceVlog :: "deps \<Rightarrow> disk \<Rightarrow> flag \<Rightarrow> logReplayer \<Rightarrow> rstate \<Rightarrow> rstate + verdict" where
  "advanceVlog c d fl lp st =
     (case vlogIterator st of
        None \<Rightarrow> Inr (Panic ''nil pointer dereference'', trace st)
      | Some vit \<Rightarrow>
     (let tr1 = trace st @ [Statted (lf_path (vlogFile st))] in
      case isTruncateNeeded d (validOffset vit) (vlogFile st) of
        Inl err \<Rightarrow>
          Inr (Failed (Wrapf err ''Error while checking truncation for the vlog file''), tr1)
      | Inr tn \<Rightarrow>
          if tn then Inr (finish (st\<lparr>truncateNeeded := True, trace := tr1\<rparr>))
          else
            (let tr2 = tr1 @ [Closed (lf_path (vlogFile st))] in
             case closeRes d (lf_path (vlogFile st)) of
               Some err \<Rightarrow>
                 Inr (Failed (Wrapf err ''Error while closing the vlog file in replay''), tr2)
             | None \<Rightarrow>
                 (let st1 = st\<lparr>vlogFile := (vlogFile st)\<lparr>lf_closed := True\<rparr>,
                                truncateNeeded := False, trace := tr2\<rparr> in
                  if length (vlogIDs lp) < currentVlogIndex st then Inr (finish st1)
                  else
                    (let i = currentVlogIndex st + 1 in
                     if length (walIDs lp) \<le> i then Inr (Panic ''index out of range'', tr2)
                     else
                       (let p = (VLOG, walIDs lp ! i); tr3 = tr2 @ [Opened p fl] in
                        case openLog d p of
                          Inl err \<Rightarrow>
                            Inr (Failed (Wrapf err
                                   ''Error while opening WAL file in logReplayer''), tr3)
                        | Inr newVlog \<Rightarrow>
                            if fileOffset newVlog < vlogHeaderSize
                            then Inr (finish (st1\<lparr>vlogFile := newVlog, currentVlogIndex := i,
                                                   truncateNeeded := True, trace := tr3\<rparr>))
                            else
                              (let tr4 = tr3 @ [Sought p vlogHeaderSize];
                                   newIt = (case newLogIterator d newVlog vlogHeaderSize of
                                              Inl err \<Rightarrow> None | Inr it \<Rightarrow> Some it) in
                               case iterateEntries c (walIterator st) of (vb, it1) \<Rightarrow>
                                 Inl (st1\<lparr>vlogFile := newVlog, currentVlogIndex := i,
                                          vlogIterator := newIt, walIterator := it1,
                                          vlogBatch := vb,
                                          trace := tr4 @ [Iterated (source (walIterator st))]\<rparr>))))))))"

text \<open>Lines 405-440: both batches are present. The message of line 414 joins the
  messages of the errors that are set.\<close>

definition errList :: "error option \<Rightarrow> error list" where
  "errList x = (case x of None \<Rightarrow> [] | Some err \<Rightarrow> [err])"

definition vlogPointer :: "logFile \<Rightarrow> entry \<Rightarrow> valuePointer" where
  "vlogPointer vf e = \<lparr>Fid = lf_fid vf, Len = entryLen e, Offset = offset e\<rparr>"

definition replayBatches :: "deps \<Rightarrow> (entry \<Rightarrow> valuePointer \<Rightarrow> error option) \<Rightarrow> rstate
    \<Rightarrow> rstate + verdict" where
  "replayBatches c replayFn st =
     (case walBatch st of (walEntries, walCommitTs, walErr) \<Rightarrow>
      case vlogBatch st of (vlogEntries, vlogCommitTs, vlogErr) \<Rightarrow>
        if walErr \<noteq> None \<or> vlogErr \<noteq> None
        then Inr (Failed (Wrapf (ErrNew (errList walErr @ errList vlogErr))
                    ''Error while replay log''), trace st)
        else if vlogCommitTs \<noteq> walCommitTs
        then Inr (finish (st\<lparr>truncateNeeded := True\<rparr>))
        else
          (case replayEach replayFn (map (\<lambda>e. (e, emptyPointer)) walEntries) (trace st) of
             (Some err, tr1) \<Rightarrow>
               Inr (Failed (Wrapf err ''Error while inserting entry to lsm.''), tr1)
           | (None, tr1) \<Rightarrow>
               (case replayEach replayFn
                       (map (\<lambda>e. (e, vlogPointer (vlogFile st) e)) vlogEntries) tr1 of
                  (Some err, tr2) \<Rightarrow>
                    Inr (Failed (Wrapf err ''Error while inserting entry to lsm.''), tr2)
                | (None, tr2) \<Rightarrow>
                    (case iterateEntries c (walIterator st) of (wb, it1) \<Rightarrow>
                     case iterateEntries c it1 of (vb, it2) \<Rightarrow>
                       Inl (st\<lparr>walIterator := it2, walBatch := wb, vlogBatch := vb,
                               trace := tr2 @ [Iterated (source (walIterator st)),
                                               Iterated (source (walIterator st))]\<rparr>)))))"

text \<open>One pass through the body of the \<^verbatim>\<open>for\<close> loop of lines 315-441: \<open>Inl\<close> is the
  state at the next iteration, \<open>Inr\<close> is how \<^verbatim>\<open>replay\<close> ends.\<close>

definition replayStep :: "deps \<Rightarrow> disk \<Rightarrow> (entry \<Rightarrow> valuePointer \<Rightarrow> error option) \<Rightarrow> flag
    \<Rightarrow> logReplayer \<Rightarrow> rstate \<Rightarrow> rstate + verdict" where
  "replayStep c d replayFn fl lp st =
     (let walErr = snd (snd (walBatch st)); vlogErr = snd (snd (vlogBatch st)) in
      if walErr = Some ErrTruncate \<or> vlogErr = Some ErrTruncate
      then Inr (finish (st\<lparr>truncateNeeded := True\<rparr>))
      else if walErr = Some IoEOF then advanceWal c d fl lp st
      else if vlogErr = Some IoEOF then advanceVlog c d fl lp st
      else replayBatches c replayFn st)"

subsection \<open>The loop terminates\<close>

text \<open>
  A call of \<open>iterateEntries\<close> never gives entries back, and one that returns a batch
  has decoded at least its terminator. Every pass through the loop body that does not
  leave it moves to the next WAL id, or to the next index of the vlog branch, or decodes
  from the WAL iterator, or turns a pair of batches into an error for the next pass.
\<close>

lemma iterLoop_le:
  "length (fst (snd (iterLoop c lerr ts es roff voff ps))) \<le> length ps"
proof (induction ps arbitrary: ts es roff voff)
  case Nil
  show ?case by simp
next
  case (Cons e ps)
  have step: "\<And>ts es roff. length (fst (snd (iterLoop c lerr ts es roff voff ps))) \<le> Suc (length ps)"
    using Cons.IH le_SucI by blast
  show ?case
    by (simp add: Let_def step split: sum.splits)
qed

lemma iterLoop_less:
  "snd (snd (fst (iterLoop c lerr ts es roff voff ps))) = None \<Longrightarrow>
     length (fst (snd (iterLoop c lerr ts es roff voff ps))) < length ps"
proof (induction ps arbitrary: ts es roff voff)
  case Nil
  then show ?case by simp
next
  case (Cons e ps)
  have step: "\<And>ts es roff. snd (snd (fst (iterLoop c lerr ts es roff voff ps))) = None \<Longrightarrow>
      length (fst (snd (iterLoop c lerr ts es roff voff ps))) < Suc (length ps)"
    using Cons.IH less_SucI by blast
  from Cons.prems show ?case
    by (auto simp: Let_def step split: sum.splits if_splits)
qed

lemma iterateEntries_pending:
  "iterateEntries c it = ((bes, bts, berr), it') \<Longrightarrow>
     length (pending it') \<le> length (pending it) \<and>
     (berr = None \<longrightarrow> length (pending it') < length (pending it))"
  using iterLoop_le [of c "lastErr it" 0 "[]" "recordOffset it" "validOffset it" "pending it"]
        iterLoop_less [of c "lastErr it" 0 "[]" "recordOffset it" "validOffset it" "pending it"]
  by (auto simp: iterateEntries_def split: prod.splits)

definition replayMeasure :: "logReplayer \<Rightarrow> rstate \<Rightarrow> nat \<times> nat \<times> nat" where
  "replayMeasure lp st =
     (length (walIDs lp) - currentWalIndex st,
      length (walIDs lp) - currentVlogIndex st,
      2 * length (pending (walIterator st)) +
        (if snd (snd (walBatch st)) = None \<and> snd (snd (vlogBatch st)) = None then 1 else 0))"

definition replayOrder :: "((nat \<times> nat \<times> nat) \<times> (nat \<times> nat \<times> nat)) set" where
  "replayOrder = less_than <*lex*> less_than <*lex*> less_than"

lemma advanceWal_decreases:
  "advanceWal c d fl lp st = Inl st' \<Longrightarrow> (replayMeasure lp st', replayMeasure lp st) \<in> replayOrder"
  by (auto simp: advanceWal_def replayMeasure_def replayOrder_def Let_def
           split: sum.splits if_splits option.splits prod.splits)

lemma advanceVlog_decreases:
  "advanceVlog c d fl lp st = Inl st' \<Longrightarrow> (replayMeasure lp st', replayMeasure lp st) \<in> replayOrder"
  by (auto simp: advanceVlog_def replayMeasure_def replayOrder_def Let_def
           split: sum.splits if_splits option.splits prod.splits dest!: iterateEntries_pending)

lemma replayBatches_decreases:
  "replayBatches c rf st = Inl st' \<Longrightarrow> (replayMeasure lp st', replayMeasure lp st) \<in> replayOrder"
  by (auto simp: replayBatches_def replayMeasure_def replayOrder_def Let_def
           split: sum.splits if_splits option.splits prod.splits dest!: iterateEntries_pending)


lemma replayStep_decreases:
  "replayStep c d rf fl lp st = Inl st' \<Longrightarrow>
     (replayMeasure lp st', replayMeasure lp st) \<in> replayOrder"
  unfolding replayStep_def Let_def
  by (auto split: if_splits
           dest: advanceWal_decreases advanceVlog_decreases replayBatches_decreases)

lemma wf_replayOrder: "wf replayOrder"
  by (simp add: replayOrder_def wf_lex_prod)

function replayLoop :: "deps \<Rightarrow> disk \<Rightarrow> (entry \<Rightarrow> valuePointer \<Rightarrow> error option) \<Rightarrow> flag
    \<Rightarrow> logReplayer \<Rightarrow> rstate \<Rightarrow> verdict" where
  "replayLoop c d replayFn fl lp st =
     (case replayStep c d replayFn fl lp st of
        Inl st' \<Rightarrow> replayLoop c d replayFn fl lp st'
      | Inr res \<Rightarrow> res)"
  by pat_completeness auto
termination
proof (relation "inv_image replayOrder (\<lambda>(c, d, rf, fl, lp, st). replayMeasure lp st)")
  show "wf (inv_image replayOrder (\<lambda>(c, d, rf, fl, lp, st). replayMeasure lp st))"
    by (simp add: wf_replayOrder)
next
  fix c d replayFn fl lp st st'
  assume "replayStep c d replayFn fl lp st = Inl st'"
  then show "((c, d, replayFn, fl, lp, st'), (c, d, replayFn, fl, lp, st))
      \<in> inv_image replayOrder (\<lambda>(c, d, rf, fl, lp, st). replayMeasure lp st)"
    by (simp add: replayStep_decreases)
qed

subsection \<open>replay\<close>

text \<open>Lines 271-275 and 296-300: a file shorter than its header is bootstrapped.\<close>

definition bootstrapIfShort :: "disk \<Rightarrow> logFile \<Rightarrow> event list
    \<Rightarrow> (error + logFile) \<times> event list" where
  "bootstrapIfShort d lf tr =
     (if fileOffset lf < vlogHeaderSize
      then (bootstrap d lf, tr @ [Bootstrapped (lf_path lf)])
      else (Inr lf, tr))"

text \<open>Lines 246-254.\<close>

definition openFlags :: "options \<Rightarrow> flag" where
  "openFlags opts = (if ReadOnly opts then ReadOnlyFlag
                     else if SyncWrites opts then SyncFlag else NoFlag)"

text \<open>
  \<^verbatim>\<open>replay\<close> (lines 245-447): the result and the events in the order they happened.
  Indexing an empty \<^verbatim>\<open>lp.vlogIDs\<close> at line 261 panics.
\<close>

definition replay :: "deps \<Rightarrow> disk \<Rightarrow> (entry \<Rightarrow> valuePointer \<Rightarrow> error option)
    \<Rightarrow> logReplayer \<Rightarrow> verdict" where
  "replay c d replayFn lp =
     (let fl = openFlags (opt lp) in
      case walIDs lp of
        [] \<Rightarrow> (Done (), [])
      | w0 # wrest \<Rightarrow>
     (case vlogIDs lp of
        [] \<Rightarrow> (Panic ''index out of range'', [])
      | v0 # vrest \<Rightarrow>
     (let vp = (VLOG, v0); tr1 = [Opened vp fl] in
      case openLog d vp of
        Inl err \<Rightarrow>
          (Failed (Wrapf err ''Error while opening vlog file in log replayer''), tr1)
      | Inr vfile0 \<Rightarrow>
     (case bootstrapIfShort d vfile0 tr1 of
        (Inl err, tr2) \<Rightarrow> (Failed (Wrapf err ''Error while bootstraping vlog file''), tr2)
      | (Inr vfile, tr2) \<Rightarrow>
     (let vlogOffset = (if lf_fid vfile = Fid (vhead lp) then Offset (vhead lp)
                        else vlogHeaderSize);
          tr3 = tr2 @ [Sought vp vlogOffset] in
      case newLogIterator d vfile vlogOffset of
        Inl err \<Rightarrow>
          (Failed (Wrapf err ''Error while creating log iterator for the vlog file''), tr3)
      | Inr vit \<Rightarrow>
     (let wp = (WAL, w0); tr4 = tr3 @ [Opened wp fl] in
      case openLog d wp of
        Inl err \<Rightarrow> (Failed (Wrapf err ''Error while opening WAL file in logReplayer''), tr4)
      | Inr wfile0 \<Rightarrow>
     (case bootstrapIfShort d wfile0 tr4 of
        (Inl err, tr5) \<Rightarrow> (Failed (Wrapf err ''Error while bootstraping wal file''), tr5)
      | (Inr wfile, tr5) \<Rightarrow>
     (let tr6 = tr5 @ [Sought wp vlogHeaderSize] in
      case newLogIterator d wfile vlogHeaderSize of
        Inl err \<Rightarrow>
          (Failed (Wrapf err ''Error while creating log iterator for the wal file''), tr6)
      | Inr wit \<Rightarrow>
     (case iterateEntries c wit of (wb, wit1) \<Rightarrow>
      case iterateEntries c vit of (vb, vit1) \<Rightarrow>
        replayLoop c d replayFn fl lp
          \<lparr>walFile = wfile, vlogFile = vfile, walIterator = wit1, vlogIterator = Some vit1,
           currentWalIndex = 0, currentVlogIndex = 0, walBatch = wb, vlogBatch = vb,
           truncateNeeded = False,
           trace = tr6 @ [Iterated (source wit), Iterated (source vit)]\<rparr>)))))))))"

section \<open>write\<close>

text \<open>
  A \<^verbatim>\<open>request\<close>: its entries and the pointers \<^verbatim>\<open>write\<close> appends for them.
  \<^verbatim>\<open>db.shouldWriteValueToLSM\<close>, \<^verbatim>\<open>logFile.encode\<close> and \<^verbatim>\<open>logFile.writeLog\<close> are declared
  outside the two files and are parameters: \<open>encode lf e off\<close> is the error or the bytes
  that the call appends to its buffer (their number is the length it returns).
\<close>

record request =
  Entries :: "entry list"
  Ptrs :: "valuePointer list"

record wdeps =
  shouldWriteValueToLSM :: "entry \<Rightarrow> bool"
  encode :: "logFile \<Rightarrow> entry \<Rightarrow> u32 \<Rightarrow> error + bytes"
  writeLog :: "logFile \<Rightarrow> bytes \<Rightarrow> error option"

text \<open>What the loops of \<^verbatim>\<open>write\<close> carry along: \<^verbatim>\<open>b.Ptrs\<close> of the request at hand, the
  two buffers and the counter \<^verbatim>\<open>written\<close>.\<close>

record wacc =
  ptrs :: "valuePointer list"
  walBuf :: bytes
  vlogBuf :: bytes
  written :: nat

text \<open>
  The loop over \<^verbatim>\<open>txnEntries\<close> (lines 527-557). The \<^verbatim>\<open>if e.skipVlog\<close> of lines 529-531
  appends a pointer and falls through to the routing below it.
\<close>

fun writeEntries :: "wdeps \<Rightarrow> logManager \<Rightarrow> entry list \<Rightarrow> wacc \<Rightarrow> wacc outcome" where
  "writeEntries w lm [] acc = Done acc"
| "writeEntries w lm (e # es) acc =
     (let acc1 = (if skipVlog e then acc\<lparr>ptrs := ptrs acc @ [emptyPointer]\<rparr> else acc) in
      if shouldWriteValueToLSM w e then
        (case wal lm of
           None \<Rightarrow> Panic ''nil pointer dereference''
         | Some wl \<Rightarrow>
             (let entryOffset = fileOffset wl + word_of_nat (length (walBuf acc1)) in
              case encode w wl e entryOffset of
                Inl err \<Rightarrow> Failed (Wrapf err ''Error while encoding entry for WAL'')
              | Inr bs \<Rightarrow>
                  writeEntries w lm es
                    (acc1\<lparr>ptrs := ptrs acc1 @ [emptyPointer], walBuf := walBuf acc1 @ bs,
                          written := written acc1 + 1\<rparr>)))
      else
        (case vlog lm of
           None \<Rightarrow> Panic ''nil pointer dereference''
         | Some vl \<Rightarrow>
             (let entryOffset = fileOffset vl + word_of_nat (length (vlogBuf acc1)) in
              case encode w vl e entryOffset of
                Inl err \<Rightarrow> Failed (Wrapf err ''Error while encoding entry for vlog'')
              | Inr bs \<Rightarrow>
                  writeEntries w lm es
                    (acc1\<lparr>ptrs := ptrs acc1 @
                             [\<lparr>Fid = lf_fid vl, Len = word_of_nat (length bs),
                               Offset = entryOffset\<rparr>],
                          vlogBuf := vlogBuf acc1 @ bs,
                          written := written acc1 + 1\<rparr>))))"

text \<open>Lines 559-575: the two end entries of a request, the first to the WAL buffer and
  the second to the vlog buffer, each with an empty pointer.\<close>

definition writeEndEntries :: "wdeps \<Rightarrow> logManager \<Rightarrow> entry \<Rightarrow> entry \<Rightarrow> wacc \<Rightarrow> wacc outcome" where
  "writeEndEntries w lm endWal endVlog acc =
     (case wal lm of
        None \<Rightarrow> Panic ''nil pointer dereference''
      | Some wl \<Rightarrow>
          (case encode w wl endWal (fileOffset wl + word_of_nat (length (walBuf acc))) of
             Inl err \<Rightarrow> Failed (Wrapf err ''Error while encoding end entry for WAL'')
           | Inr bs \<Rightarrow>
               (let acc1 = acc\<lparr>walBuf := walBuf acc @ bs, written := written acc + 1,
                               ptrs := ptrs acc @ [emptyPointer]\<rparr> in
                case vlog lm of
                  None \<Rightarrow> Panic ''nil pointer dereference''
                | Some vl \<Rightarrow>
                    (case encode w vl endVlog
                            (fileOffset vl + word_of_nat (length (vlogBuf acc1))) of
                       Inl err \<Rightarrow> Failed (Wrapf err ''Error while encoding eng entry for vlog'')
                     | Inr cs \<Rightarrow>
                         Done (acc1\<lparr>vlogBuf := vlogBuf acc1 @ cs,
                                    written := written acc1 + 1,
                                    ptrs := ptrs acc1 @ [emptyPointer]\<rparr>)))))"

text \<open>
  The loop over the requests (lines 521-577). The slice expression of line 526 panics
  on a request with fewer than two entries. The result is the requests with their
  pointers, the manager with its counter, and the two buffers.
\<close>

fun writeRequests :: "wdeps \<Rightarrow> logManager \<Rightarrow> request list \<Rightarrow> request list \<Rightarrow> bytes \<Rightarrow> bytes
    \<Rightarrow> (request list \<times> logManager \<times> bytes \<times> bytes) outcome" where
  "writeRequests w lm [] finished wb vb = Done (finished, lm, wb, vb)"
| "writeRequests w lm (b # rest) finished wb vb =
     (let n = length (Entries b) in
      if n < 2 then Panic ''slice bounds out of range''
      else
        (case writeEntries w lm (take (n - 2) (Entries b))
                \<lparr>ptrs = Ptrs b, walBuf = wb, vlogBuf = vb, written = 0\<rparr> of
           Panic msg \<Rightarrow> Panic msg
         | Failed err \<Rightarrow> Failed err
         | Done acc \<Rightarrow>
             (case writeEndEntries w lm (Entries b ! (n - 2)) (Entries b ! (n - 1)) acc of
                Panic msg \<Rightarrow> Panic msg
              | Failed err \<Rightarrow> Failed err
              | Done acc1 \<Rightarrow>
                  writeRequests w
                    (lm\<lparr>entriesWritten := entriesWritten lm + word_of_nat (written acc1)\<rparr>)
                    rest (finished @ [b\<lparr>Ptrs := ptrs acc1\<rparr>]) (walBuf acc1) (vlogBuf acc1))))"

text \<open>\<^verbatim>\<open>write\<close> (lines 517-588), named \<open>managerWrite\<close> because \<^verbatim>\<open>write\<close> is a keyword
  of the proof language: the requests with their pointers, the manager, and the bytes
  handed to \<^verbatim>\<open>writeLog\<close> for the WAL and for the vlog.\<close>

definition managerWrite :: "wdeps \<Rightarrow> logManager \<Rightarrow> request list
    \<Rightarrow> (request list \<times> logManager \<times> bytes \<times> bytes) outcome" where
  "managerWrite w lm reqs =
     (case writeRequests w lm reqs [] [] [] of
        Panic msg \<Rightarrow> Panic msg
      | Failed err \<Rightarrow> Failed err
      | Done (reqs1, lm1, wb, vb) \<Rightarrow>
          (case wal lm1 of
             None \<Rightarrow> Panic ''nil pointer dereference''
           | Some wl \<Rightarrow>
               (case writeLog w wl wb of
                  Some err \<Rightarrow> Failed (Wrapf err ''Error while writing log to WAL'')
                | None \<Rightarrow>
                    (case vlog lm1 of
                       None \<Rightarrow> Panic ''nil pointer dereference''
                     | Some vl \<Rightarrow>
                         (case writeLog w vl vb of
                            Some err \<Rightarrow> Failed (Wrapf err ''Error while writing log to vlog'')
                          | None \<Rightarrow> Done (reqs1, lm1, wb, vb))))))"

section \<open>The key registry\<close>

text \<open>
  \<^verbatim>\<open>pb.DataKey\<close>, with \<^verbatim>\<open>CreatedAt\<close> (an \<^verbatim>\<open>int64\<close> of Unix seconds) as an integer.
  \<^verbatim>\<open>y.XORBlock\<close>, the methods \<^verbatim>\<open>Marshal\<close> and \<^verbatim>\<open>Unmarshal\<close> of \<^verbatim>\<open>pb.DataKey\<close> and the table
  \<^verbatim>\<open>y.CastagnoliCrcTable\<close> behind \<^verbatim>\<open>crc32.Checksum\<close> are declared outside the two files:
  they are the parameters \<open>kdeps\<close>. \<open>XORBlock key iv src\<close> returns a new slice.
\<close>

record dataKey =
  KeyID :: u64
  Data :: bytes
  IV :: bytes
  CreatedAt :: int

record kdeps =
  XORBlock :: "bytes \<Rightarrow> bytes \<Rightarrow> bytes \<Rightarrow> error + bytes"
  Marshal :: "dataKey \<Rightarrow> error + bytes"
  Unmarshal :: "bytes \<Rightarrow> error + dataKey"
  Checksum :: "bytes \<Rightarrow> u32"

text \<open>
  The directory and the operating system. \<open>files\<close> maps a file name of the directory
  to its bytes. \<open>faults\<close> scripts the system calls that can fail: each call takes the
  head of the list as its result (\<open>None\<close> is success) and an exhausted list means
  success from then on. \<open>syncs\<close> lists the names passed to \<^verbatim>\<open>y.FileSync\<close> and
  \<^verbatim>\<open>syncDir\<close>, oldest first. An \<^verbatim>\<open>*os.File\<close> is the name it was opened under and
  whether it was opened read-only; the registry code only ever appends to it.
\<close>

record world =
  files :: "string \<rightharpoonup> bytes"
  faults :: "error option list"
  syncs :: "string list"

record osFile =
  fname :: string
  readOnlyFd :: bool

definition KeyRegistryFileName :: string where
  "KeyRegistryFileName = ''KEYREGISTRY''"

definition KeyRegistryRewriteFileName :: string where
  "KeyRegistryRewriteFileName = ''REWRITE-KEYREGISTRY''"

text \<open>\<^verbatim>\<open>RotationPeriod\<close>, in days.\<close>

definition RotationPeriod :: int where
  "RotationPeriod = 10"

text \<open>The bytes of \<^verbatim>\<open>"!Badger!Registry!"\<close>.\<close>

definition sanityText :: bytes where
  "sanityText = [33, 66, 97, 100, 103, 101, 114, 33, 82, 101, 103, 105, 115, 116, 114, 121, 33]"

definition aesBlockSize :: nat where
  "aesBlockSize = 16"

definition popFault :: "world \<Rightarrow> error option \<times> world" where
  "popFault w = (case faults w of [] \<Rightarrow> (None, w) | f # fs \<Rightarrow> (f, w\<lparr>faults := fs\<rparr>))"

definition contentOf :: "world \<Rightarrow> string \<Rightarrow> bytes" where
  "contentOf w name = (case files w name of None \<Rightarrow> [] | Some c \<Rightarrow> c)"

text \<open>\<^verbatim>\<open>fp.Write\<close>: the bytes are appended; a descriptor opened read-only refuses.\<close>

definition fileWrite :: "osFile \<Rightarrow> bytes \<Rightarrow> world \<Rightarrow> error option \<times> world" where
  "fileWrite f bs w =
     (case popFault w of
        (Some err, w1) \<Rightarrow> (Some err, w1)
      | (None, w1) \<Rightarrow>
          if readOnlyFd f then (Some (ErrIO ''bad file descriptor''), w1)
          else (None, w1\<lparr>files := (files w1)(fname f \<mapsto> contentOf w1 (fname f) @ bs)\<rparr>))"

definition FileSync :: "string \<Rightarrow> world \<Rightarrow> error option \<times> world" where
  "FileSync name w =
     (case popFault w of
        (Some err, w1) \<Rightarrow> (Some err, w1)
      | (None, w1) \<Rightarrow> (None, w1\<lparr>syncs := syncs w1 @ [name]\<rparr>))"

text \<open>\<^verbatim>\<open>y.ReadAt\<close> is declared outside the two files. Modelled from the spec ("read the
  16-byte IV and the sanity block"): the \<open>n\<close> bytes at \<open>pos\<close>, or end of file when the
  file is too short.\<close>

definition ReadAt :: "bytes \<Rightarrow> nat \<Rightarrow> nat \<Rightarrow> error option list
    \<Rightarrow> (error + bytes) \<times> error option list" where
  "ReadAt content pos n fs =
     (case fs of
        Some err # rest \<Rightarrow> (Inl err, rest)
      | _ \<Rightarrow> (if pos + n \<le> length content then Inr (take n (drop pos content))
              else Inl IoEOF, tl fs))"

text \<open>\<^verbatim>\<open>binary.BigEndian.PutUint32\<close> and \<^verbatim>\<open>binary.BigEndian.Uint32\<close> of the Go library,
  the latter on a slice of four bytes.\<close>

definition putUint32 :: "u32 \<Rightarrow> bytes" where
  "putUint32 v = [ucast (drop_bit 24 v), ucast (drop_bit 16 v), ucast (drop_bit 8 v), ucast v]"

definition getUint32 :: "bytes \<Rightarrow> u32" where
  "getUint32 b = push_bit 24 (ucast (b ! 0)) OR push_bit 16 (ucast (b ! 1))
                 OR push_bit 8 (ucast (b ! 2)) OR ucast (b ! 3)"

record KeyRegistry =
  dataKeys :: "u64 \<rightharpoonup> dataKey"
  lastCreated :: int
  nextKeyID :: u64
  storageKey :: bytes
  fp :: "osFile option"

definition newKeyRegistry :: "bytes \<Rightarrow> KeyRegistry" where
  "newKeyRegistry sk =
     \<lparr>dataKeys = Map.empty, lastCreated = 0, nextKeyID = 0, storageKey = sk, fp = None\<rparr>"

text \<open>
  \<^verbatim>\<open>storeDataKey\<close> (lines 261-292). The key is a pointer and line 265 assigns to its
  \<^verbatim>\<open>Data\<close>: the key as the function leaves it is part of the result. A nil \<^verbatim>\<open>*os.File\<close>
  makes \<^verbatim>\<open>Write\<close> return an error.
\<close>

definition storeDataKey :: "kdeps \<Rightarrow> osFile option \<Rightarrow> bytes \<Rightarrow> dataKey \<Rightarrow> bool \<Rightarrow> world
    \<Rightarrow> error option \<times> dataKey \<times> world" where
  "storeDataKey k file sk dk sync w =
     (case (if length sk > 0 then XORBlock k sk (IV dk) (Data dk) else Inr (Data dk)) of
        Inl err \<Rightarrow> (Some err, dk\<lparr>Data := []\<rparr>, w)
      | Inr d \<Rightarrow>
          (let dk1 = dk\<lparr>Data := d\<rparr> in
           case Marshal k dk1 of
             Inl err \<Rightarrow> (Some err, dk1, w)
           | Inr data \<Rightarrow>
               (let lenCrcBuf = putUint32 (word_of_nat (length data))
                                @ putUint32 (Checksum k data) in
                case file of
                  None \<Rightarrow> (Some (ErrIO ''invalid argument''), dk1, w)
                | Some f \<Rightarrow>
                    (case fileWrite f lenCrcBuf w of
                       (Some err, w1) \<Rightarrow> (Some err, dk1, w1)
                     | (None, w1) \<Rightarrow>
                         (case fileWrite f data w1 of
                            (Some err, w2) \<Rightarrow> (Some err, dk1, w2)
                          | (None, w2) \<Rightarrow>
                              if sync then
                                (case FileSync (fname f) w2 of (r, w3) \<Rightarrow> (r, dk1, w3))
                              else (None, dk1, w2))))))"

text \<open>
  The loop of lines 182-187 over \<^verbatim>\<open>reg.dataKeys\<close>, a Go map ranged over in an
  unspecified order: the order is the list of ids. The registry comes back with the keys
  as \<^verbatim>\<open>storeDataKey\<close> left them.
\<close>

fun storeAll :: "kdeps \<Rightarrow> osFile \<Rightarrow> bytes \<Rightarrow> u64 list \<Rightarrow> KeyRegistry \<Rightarrow> world
    \<Rightarrow> error option \<times> KeyRegistry \<times> world" where
  "storeAll k f sk [] reg w = (None, reg, w)"
| "storeAll k f sk (i # ids) reg w =
     (case dataKeys reg i of
        None \<Rightarrow> storeAll k f sk ids reg w
      | Some dk \<Rightarrow>
          (case storeDataKey k (Some f) sk dk False w of
             (Some err, dk1, w1) \<Rightarrow> (Some err, reg\<lparr>dataKeys := (dataKeys reg)(i \<mapsto> dk1)\<rparr>, w1)
           | (None, dk1, w1) \<Rightarrow>
               storeAll k f sk ids (reg\<lparr>dataKeys := (dataKeys reg)(i \<mapsto> dk1)\<rparr>) w1))"

text \<open>
  \<^verbatim>\<open>RewriteRegistry\<close> (lines 156-203). \<open>order\<close> is the order in which the map is
  ranged over and \<open>genIV\<close> the result of \<^verbatim>\<open>y.GenereateIV()\<close>. \<^verbatim>\<open>y.OpenTruncFile\<close> leaves an
  empty file, \<^verbatim>\<open>os.Rename\<close> moves the bytes to the registry's name.
\<close>

definition RewriteRegistry :: "kdeps \<Rightarrow> u64 list \<Rightarrow> error + bytes \<Rightarrow> KeyRegistry \<Rightarrow> bytes \<Rightarrow> world
    \<Rightarrow> error option \<times> KeyRegistry \<times> world" where
  "RewriteRegistry k order genIV reg sk w =
     (case popFault w of
        (Some err, w0) \<Rightarrow> (Some err, reg, w0)
      | (None, w0) \<Rightarrow>
     (let f = \<lparr>fname = KeyRegistryRewriteFileName, readOnlyFd = False\<rparr>;
          w1 = w0\<lparr>files := (files w0)(KeyRegistryRewriteFileName \<mapsto> [])\<rparr> in
      case genIV of
        Inl err \<Rightarrow> (Some err, reg, w1)
      | Inr iv \<Rightarrow>
     (case (if length sk > 0 then XORBlock k sk iv sanityText else Inr sanityText) of
        Inl err \<Rightarrow> (Some err, reg, w1)
      | Inr eSanity \<Rightarrow>
     (case fileWrite f iv w1 of
        (Some err, w2) \<Rightarrow> (Some err, reg, w2)
      | (None, w2) \<Rightarrow>
     (case fileWrite f eSanity w2 of
        (Some err, w3) \<Rightarrow> (Some err, reg, w3)
      | (None, w3) \<Rightarrow>
     (case storeAll k f sk order reg w3 of
        (Some err, reg1, w4) \<Rightarrow> (Some err, reg1, w4)
      | (None, reg1, w4) \<Rightarrow>
     (case FileSync (fname f) w4 of
        (Some err, w5) \<Rightarrow> (Some err, reg1, w5)
      | (None, w5) \<Rightarrow>
     (case popFault w5 of
        (Some err, w6) \<Rightarrow> (Some err, reg1, w6)
      | (None, w6) \<Rightarrow>
     (case popFault w6 of
        (Some err, w7) \<Rightarrow> (Some err, reg1, w7)
      | (None, w7) \<Rightarrow>
     (let w8 = w7\<lparr>files := (files w7)(KeyRegistryFileName \<mapsto>
                                contentOf w7 KeyRegistryRewriteFileName,
                              KeyRegistryRewriteFileName := None)\<rparr> in
      case popFault w8 of
        (Some err, w9) \<Rightarrow> (Some err, reg1, w9)
      | (None, w9) \<Rightarrow> (None, reg1, w9\<lparr>syncs := syncs w9 @ [''.'']\<rparr>)))))))))))"

text \<open>
  One pass of the loop of lines 113-145 up to the checksum: the eight bytes of length
  and checksum at \<open>readPos\<close>, then the record. The result is the record's bytes and the
  position after them.
\<close>

definition readFrame :: "kdeps \<Rightarrow> bytes \<Rightarrow> nat \<Rightarrow> error option list
    \<Rightarrow> (error + bytes \<times> nat) \<times> error option list" where
  "readFrame k content readPos fs =
     (case ReadAt content readPos 8 fs of
        (Inl err, fs1) \<Rightarrow> (Inl err, fs1)
      | (Inr lenCrcBuf, fs1) \<Rightarrow>
          (let l = unat (getUint32 (take 4 lenCrcBuf)) in
           case ReadAt content (readPos + 8) l fs1 of
             (Inl err, fs2) \<Rightarrow> (Inl err, fs2)
           | (Inr data, fs2) \<Rightarrow>
               if Checksum k data \<noteq> getUint32 (drop 4 lenCrcBuf)
               then (Inl ErrBadChecksum, fs2)
               else (Inr (data, readPos + 8 + l), fs2)))"

text \<open>Lines 126-144: the record is unmarshalled, its material decrypted, and the key
  is stored in the map under \<^verbatim>\<open>kr.nextKeyID\<close> (line 144).\<close>

definition absorbKey :: "kdeps \<Rightarrow> bytes \<Rightarrow> bytes \<Rightarrow> KeyRegistry \<Rightarrow> error + KeyRegistry" where
  "absorbKey k sk data kr =
     (case Unmarshal k data of
        Inl err \<Rightarrow> Inl err
      | Inr dk \<Rightarrow>
          (case (if length sk > 0 then XORBlock k sk (IV dk) (Data dk) else Inr (Data dk)) of
             Inl err \<Rightarrow> Inl err
           | Inr d \<Rightarrow>
               (let dk1 = dk\<lparr>Data := d\<rparr>;
                    kr1 = (if KeyID dk1 > nextKeyID kr then kr\<lparr>nextKeyID := KeyID dk1\<rparr>
                           else kr);
                    kr2 = (if CreatedAt dk1 > lastCreated kr1
                           then kr1\<lparr>lastCreated := CreatedAt dk1\<rparr> else kr1) in
                Inr (kr2\<lparr>dataKeys := (dataKeys kr2)(nextKeyID kr2 \<mapsto> dk1)\<rparr>))))"

lemma readFrame_advances:
  "readFrame k content readPos fs = (Inr (data, pos1), fs') \<Longrightarrow>
     readPos < pos1 \<and> pos1 \<le> length content"
  by (auto simp: readFrame_def ReadAt_def Let_def
           split: prod.splits sum.splits list.splits option.splits if_splits)

function buildLoop :: "kdeps \<Rightarrow> bytes \<Rightarrow> bytes \<Rightarrow> nat \<Rightarrow> KeyRegistry \<Rightarrow> error option list
    \<Rightarrow> (error + KeyRegistry) \<times> error option list" where
  "buildLoop k sk content readPos kr fs =
     (if readPos = length content then (Inr kr, fs)
      else (case readFrame k content readPos fs of
              (Inl err, fs1) \<Rightarrow> (Inl err, fs1)
            | (Inr (data, pos1), fs1) \<Rightarrow>
                (case absorbKey k sk data kr of
                   Inl err \<Rightarrow> (Inl err, fs1)
                 | Inr kr1 \<Rightarrow> buildLoop k sk content pos1 kr1 fs1)))"
  by pat_completeness auto
termination
proof (relation "measure (\<lambda>(k, sk, content, readPos, kr, fs). length content - readPos)")
  show "wf (measure (\<lambda>(k, sk, content, readPos, kr, fs). length content - readPos))"
    by simp
next
  fix k sk content readPos kr fs x fs1 y data pos1 kr1
  assume "readPos \<noteq> length content"
    and "(x, fs1) = readFrame k content readPos fs"
    and "x = Inr y" and "(data, pos1) = y"
    and "absorbKey k sk data kr = Inr kr1"
  then have "readFrame k content readPos fs = (Inr (data, pos1), fs1)" by simp
  from readFrame_advances [OF this]
  show "((k, sk, content, pos1, kr1, fs1), (k, sk, content, readPos, kr, fs))
      \<in> measure (\<lambda>(k, sk, content, readPos, kr, fs). length content - readPos)"
    by auto
qed

text \<open>
  \<^verbatim>\<open>buildKeyRegistry\<close> (lines 82-153): the initialisation vector, the sanity text, the
  records up to the end of the file. \<^verbatim>\<open>fp.Stat\<close> and \<^verbatim>\<open>fp.Seek\<close> can fail.
\<close>

definition buildKeyRegistry :: "kdeps \<Rightarrow> osFile \<Rightarrow> bytes \<Rightarrow> world
    \<Rightarrow> (error + KeyRegistry) \<times> world" where
  "buildKeyRegistry k f sk w =
     (let content = contentOf w (fname f) in
      case ReadAt content 0 aesBlockSize (faults w) of
        (Inl err, fs1) \<Rightarrow> (Inl err, w\<lparr>faults := fs1\<rparr>)
      | (Inr iv, fs1) \<Rightarrow>
     (case ReadAt content aesBlockSize (length sanityText) fs1 of
        (Inl err, fs2) \<Rightarrow> (Inl err, w\<lparr>faults := fs2\<rparr>)
      | (Inr eSanityText, fs2) \<Rightarrow>
     (case (if length sk > 0 then XORBlock k sk iv eSanityText else Inr eSanityText) of
        Inl err \<Rightarrow> (Inl err, w\<lparr>faults := fs2\<rparr>)
      | Inr plain \<Rightarrow>
          if plain \<noteq> sanityText then (Inl ErrEncryptionKeyMismatch, w\<lparr>faults := fs2\<rparr>)
          else
     (case popFault (w\<lparr>faults := fs2\<rparr>) of
        (Some err, w3) \<Rightarrow> (Inl err, w3)
      | (None, w3) \<Rightarrow>
     (case buildLoop k sk content (aesBlockSize + length sanityText) (newKeyRegistry sk)
             (faults w3) of
        (Inl err, fs4) \<Rightarrow> (Inl err, w3\<lparr>faults := fs4\<rparr>)
      | (Inr kr, fs4) \<Rightarrow>
     (case popFault (w3\<lparr>faults := fs4\<rparr>) of
        (Some err, w5) \<Rightarrow> (Inl err, w5)
      | (None, w5) \<Rightarrow> (Inr (kr\<lparr>fp := Some f\<rparr>), w5)))))))"

text \<open>\<^verbatim>\<open>y.OpenExistingFile\<close> is declared outside the two files. Modelled from the spec
  ("if \<^verbatim>\<open>KEYREGISTRY\<close> exists ... if the file is missing"): a descriptor for a file that
  exists, the not-exist error otherwise.\<close>

definition OpenExistingFile :: "string \<Rightarrow> bool \<Rightarrow> world \<Rightarrow> (error + osFile) \<times> world" where
  "OpenExistingFile name ro w =
     (case popFault w of
        (Some err, w1) \<Rightarrow> (Inl err, w1)
      | (None, w1) \<Rightarrow>
          (case files w1 name of
             None \<Rightarrow> (Inl ErrNotExist, w1)
           | Some c \<Rightarrow> (Inr \<lparr>fname = name, readOnlyFd = ro\<rparr>, w1)))"

text \<open>\<^verbatim>\<open>OpenKeyRegistry\<close> (lines 51-80). \<open>genIV\<close> is the result of \<^verbatim>\<open>y.GenereateIV()\<close>
  should the registry have to be created.\<close>

definition OpenKeyRegistry :: "kdeps \<Rightarrow> error + bytes \<Rightarrow> bool \<Rightarrow> bytes \<Rightarrow> world
    \<Rightarrow> (error + KeyRegistry) \<times> world" where
  "OpenKeyRegistry k genIV readOnly sk w =
     (case OpenExistingFile KeyRegistryFileName readOnly w of
        (Inr f, w1) \<Rightarrow> buildKeyRegistry k f sk w1
      | (Inl err, w1) \<Rightarrow>
          if err \<noteq> ErrNotExist then (Inl err, w1)
          else if readOnly then (Inr (newKeyRegistry sk), w1)
          else
            (case RewriteRegistry k [] genIV (newKeyRegistry sk) sk w1 of
               (Some err2, kr, w2) \<Rightarrow> (Inl err2, w2)
             | (None, kr, w2) \<Rightarrow>
                 (case OpenExistingFile KeyRegistryFileName readOnly w2 of
                    (Inl err3, w3) \<Rightarrow> (Inl err3, w3)
                  | (Inr f, w3) \<Rightarrow> buildKeyRegistry k f sk w3)))"

text \<open>\<^verbatim>\<open>dataKey\<close> (lines 205-214).\<close>

definition dataKeyOf :: "KeyRegistry \<Rightarrow> u64 \<Rightarrow> error + dataKey option" where
  "dataKeyOf kr i =
     (if i = 0 then Inr None
      else (case dataKeys kr i of None \<Rightarrow> Inl ErrInvalidDataKeyID | Some dk \<Rightarrow> Inr (Some dk)))"

text \<open>
  What \<^verbatim>\<open>getDataKey\<close> takes from outside: the clock read by \<^verbatim>\<open>time.Since\<close> (nanoseconds
  since the epoch), the clock read by \<^verbatim>\<open>time.Now().Unix()\<close> (seconds), the result of
  \<^verbatim>\<open>y.GenereateIV()\<close> and the bytes \<^verbatim>\<open>rand.Read\<close> puts into a slice of a given length
  (\<^verbatim>\<open>math/rand\<close>'s \<^verbatim>\<open>Read\<close> never fails).
\<close>

record kenv =
  nowNanos :: int
  nowUnix :: int
  genIV :: "error + bytes"
  randRead :: "nat \<Rightarrow> bytes"

text \<open>
  The test of lines 220-221, \<^verbatim>\<open>time.Since(time.Unix(kr.lastCreated, 0)).Hours()/24 <
  RotationPeriod\<close>, on exact numbers: the elapsed nanoseconds against ten days. The
  saturation of \<^verbatim>\<open>time.Duration\<close> at about 292 years and the rounding of the floating
  point division do not change the outcome of the comparison.
\<close>

definition withinRotation :: "int \<Rightarrow> int \<Rightarrow> bool" where
  "withinRotation now created =
     (now - created * 1000000000 < RotationPeriod * 24 * 3600 * 1000000000)"


text \<open>The law of the spec, "\<^verbatim>\<open>rewrite(registry)\<close> followed by \<^verbatim>\<open>open()\<close>": the registry
  that \<^verbatim>\<open>OpenKeyRegistry\<close> builds from the file that \<^verbatim>\<open>RewriteRegistry\<close> leaves.\<close>

definition rewriteThenOpen :: "kdeps \<Rightarrow> u64 list \<Rightarrow> error + bytes \<Rightarrow> KeyRegistry \<Rightarrow> bytes \<Rightarrow> world
    \<Rightarrow> error + KeyRegistry" where
  "rewriteThenOpen k order iv reg sk w =
     (case RewriteRegistry k order iv reg sk w of
        (Some err, reg1, w1) \<Rightarrow> Inl err
      | (None, reg1, w1) \<Rightarrow> fst (OpenKeyRegistry k iv False sk w1))"

section \<open>Concrete inputs for the closed examples\<close>

text \<open>
  Modelled from the spec: \<^verbatim>\<open>y.ParseTs\<close> and the two meta bits are declared outside the
  two files. "\<^verbatim>\<open>key\<close> (bytes, includes an appended 8-byte big-endian commit timestamp)":
  the example parameters read the last eight bytes of a key as a big-endian number and
  take two distinct bits for TXN and FIN-TXN.
\<close>

definition beUint64 :: "bytes \<Rightarrow> u64" where
  "beUint64 bs = foldl (\<lambda>acc b. acc * 256 + ucast b) 0 bs"

definition exDeps :: deps where
  "exDeps = \<lparr>bitTxn = 64, bitFinTxn = 128,
             ParseTs = (\<lambda>key. beUint64 (drop (length key - 8) key))\<rparr>"

text \<open>A disk on which every operation succeeds, every file has the given size and
  decodes to the given entries followed by the given error.\<close>

definition exDisk :: "(path \<Rightarrow> nat) \<Rightarrow> (path \<Rightarrow> entry list \<times> error) \<Rightarrow> disk" where
  "exDisk sizes content =
     \<lparr>openRes = (\<lambda>p. Inr (word_of_nat (sizes p))),
      bootstrapRes = (\<lambda>p. None),
      seekRes = (\<lambda>p off. None),
      statRes = (\<lambda>p. Inr (int (sizes p))),
      closeRes = (\<lambda>p. None),
      decoded = (\<lambda>p off. content p)\<rparr>"

text \<open>An entry of the transaction with a one-digit commit timestamp \<open>ts\<close> (key \<open>k\<close>
  followed by the timestamp; 17 bytes on disk), the terminator of that transaction (the
  value is the decimal digit of \<open>ts\<close>; 8 bytes on disk), and an entry that carries
  neither bit.\<close>

definition exTxnEntry :: "u8 \<Rightarrow> u8 \<Rightarrow> u32 \<Rightarrow> entry" where
  "exTxnEntry k ts off = \<lparr>Key = [k, 0, 0, 0, 0, 0, 0, 0, ts], Value = [1], meta = 64,
                          hlen = 3, offset = off, skipVlog = False\<rparr>"

definition exFinEntry :: "u8 \<Rightarrow> u32 \<Rightarrow> entry" where
  "exFinEntry ts off = \<lparr>Key = [], Value = [48 + ts], meta = 128, hlen = 3, offset = off,
                        skipVlog = False\<rparr>"

definition exPlainEntry :: entry where
  "exPlainEntry = \<lparr>Key = [9], Value = [9], meta = 0, hlen = 3, offset = 20,
                   skipVlog = False\<rparr>"

text \<open>The same disk with one file absent: opening it fails.\<close>

definition without :: "path \<Rightarrow> disk \<Rightarrow> disk" where
  "without p d = d\<lparr>openRes := (\<lambda>q. if q = p then Inl ErrNotExist else openRes d q)\<rparr>"

definition exReplayer :: "u32 list \<Rightarrow> u32 list \<Rightarrow> logReplayer" where
  "exReplayer ws vs = \<lparr>walIDs = ws, vlogIDs = vs, vhead = emptyPointer,
                       opt = \<lparr>ReadOnly = False, SyncWrites = False\<rparr>\<rparr>"

text \<open>
  Three value directories. In each, a file's bytes are its 20-byte header and its
  entries, so a transaction entry takes 17 bytes and a terminator 8.
  \<^item> \<open>tornDisk\<close>: \<^verbatim>\<open>000001.log\<close> ends inside its first transaction (the decoder reports
    truncation after one entry); \<^verbatim>\<open>000001.vlog\<close> holds transaction 7 complete.
  \<^item> \<open>twoBatchDisk\<close>: \<^verbatim>\<open>000001.log\<close> and \<^verbatim>\<open>000001.vlog\<close> each hold transaction 7 and then
    transaction 8, both complete (70 bytes each).
  \<^item> \<open>rolledDisk\<close>: \<^verbatim>\<open>000001.log\<close> holds transactions 7 and 8 (70 bytes); the vlog has
    rolled: \<^verbatim>\<open>000001.vlog\<close> holds transaction 7 and \<^verbatim>\<open>000002.vlog\<close> transaction 8
    (45 bytes each). A second WAL file \<^verbatim>\<open>000005.log\<close> is empty but for its header, and
    there is no \<^verbatim>\<open>000005.vlog\<close>.
\<close>

definition tornDisk :: disk where
  "tornDisk = exDisk (\<lambda>p. if p = (WAL, 1) then 30 else 45)
     (\<lambda>p. if p = (WAL, 1) then ([exTxnEntry 1 7 20], ErrTruncate)
          else ([exTxnEntry 2 7 20, exFinEntry 7 37], IoEOF))"

definition twoBatchDisk :: disk where
  "twoBatchDisk = exDisk (\<lambda>p. 70)
     (\<lambda>p. if p = (WAL, 1)
          then ([exTxnEntry 1 7 20, exFinEntry 7 37, exTxnEntry 3 8 45, exFinEntry 8 62], IoEOF)
          else ([exTxnEntry 2 7 20, exFinEntry 7 37, exTxnEntry 4 8 45, exFinEntry 8 62], IoEOF))"

definition rolledDisk :: disk where
  "rolledDisk = without (VLOG, 5)
     (exDisk (\<lambda>p. if p = (WAL, 1) then 70 else if p = (WAL, 5) then 20 else 45)
        (\<lambda>p. if p = (WAL, 1)
             then ([exTxnEntry 1 7 20, exFinEntry 7 37, exTxnEntry 3 8 45, exFinEntry 8 62],
                   IoEOF)
             else if p = (VLOG, 1) then ([exTxnEntry 2 7 20, exFinEntry 7 37], IoEOF)
             else if p = (VLOG, 2) then ([exTxnEntry 4 8 20, exFinEntry 8 37], IoEOF)
             else ([], IoEOF)))"

text \<open>\<open>cleanDisk\<close>: \<^verbatim>\<open>000001.log\<close> and \<^verbatim>\<open>000001.vlog\<close> each hold transaction 7, complete
  (45 bytes each).\<close>

definition cleanDisk :: disk where
  "cleanDisk = exDisk (\<lambda>p. 45)
     (\<lambda>p. if p = (WAL, 1) then ([exTxnEntry 1 7 20, exFinEntry 7 37], IoEOF)
          else ([exTxnEntry 2 7 20, exFinEntry 7 37], IoEOF))"

text \<open>
  A manager with both files open at offset 20, an encoder that frames an entry as its
  meta byte, key and value, and the routing "values of at most 2 bytes go to the WAL".
  \<open>exSkipEntry\<close> has \<^verbatim>\<open>skipVlog\<close> set; the two end entries terminate transaction 7.
\<close>

definition exManager :: logManager where
  "exManager =
     \<lparr>wal = Some \<lparr>lf_fid = 1, lf_path = (WAL, 1), lf_offset = 20, lf_closed = False\<rparr>,
      vlog = Some \<lparr>lf_fid = 1, lf_path = (VLOG, 1), lf_offset = 20, lf_closed = False\<rparr>,
      entriesWritten = 0, maxVlogID = 1,
      vlogFileMap = [1 \<mapsto> \<lparr>lf_fid = 1, lf_path = (VLOG, 1), lf_offset = 20,
                            lf_closed = False\<rparr>],
      memoryMap = True\<rparr>"

definition exWdeps :: wdeps where
  "exWdeps = \<lparr>shouldWriteValueToLSM = (\<lambda>e. length (Value e) \<le> 2),
              encode = (\<lambda>lf e off. Inr (meta e # Key e @ Value e)),
              writeLog = (\<lambda>lf buf. None)\<rparr>"

definition exSkipEntry :: entry where
  "exSkipEntry = \<lparr>Key = [5, 0, 0, 0, 0, 0, 0, 0, 7], Value = [1], meta = 64, hlen = 3,
                  offset = 0, skipVlog = True\<rparr>"

text \<open>
  Stand-ins for the parameters of the key registry, for the closed examples only.
  Modelled from the spec: "\<^verbatim>\<open>xor_stream(key, iv, data)\<close> ... Encryption and decryption are
  the same operation. Fails with \<^verbatim>\<open>CryptoError\<close> if \<^verbatim>\<open>key\<close> length is not a supported AES
  key size": \<open>exXORBlock\<close> xors every byte with one byte derived from key and iv, for
  keys of 16, 24 or 32 bytes. \<open>exMarshal\<close> frames a key as id, creation time, length of
  the iv, iv and material; \<open>exUnmarshal\<close> reads it back. \<open>exChecksum\<close> is a
  multiplicative hash.
\<close>

definition exXORBlock :: "bytes \<Rightarrow> bytes \<Rightarrow> bytes \<Rightarrow> error + bytes" where
  "exXORBlock key iv src =
     (if length key = 16 \<or> length key = 24 \<or> length key = 32
      then Inr (map (\<lambda>b. b XOR foldl (XOR) 0 (key @ iv)) src)
      else Inl (ErrIO ''crypto/aes: invalid key size''))"

definition be64 :: "u64 \<Rightarrow> bytes" where
  "be64 v = map (\<lambda>i. ucast (drop_bit (8 * i) v)) [7, 6, 5, 4, 3, 2, 1, 0]"

definition exMarshal :: "dataKey \<Rightarrow> error + bytes" where
  "exMarshal dk = Inr (be64 (KeyID dk) @ be64 (word_of_int (CreatedAt dk))
                       @ [word_of_nat (length (IV dk))] @ IV dk @ Data dk)"

definition exUnmarshal :: "bytes \<Rightarrow> error + dataKey" where
  "exUnmarshal bs =
     (if length bs < 17 then Inl (ErrIO ''unexpected EOF'')
      else if length bs < 17 + unat (bs ! 16) then Inl (ErrIO ''unexpected EOF'')
      else Inr \<lparr>KeyID = beUint64 (take 8 bs),
                Data = drop (17 + unat (bs ! 16)) bs,
                IV = take (unat (bs ! 16)) (drop 17 bs),
                CreatedAt = sint (beUint64 (take 8 (drop 8 bs)))\<rparr>)"

definition exChecksum :: "bytes \<Rightarrow> u32" where
  "exChecksum d = foldl (\<lambda>c b. c * 31 + ucast b) 0 d"

definition exKdeps :: kdeps where
  "exKdeps = \<lparr>XORBlock = exXORBlock, Marshal = exMarshal, Unmarshal = exUnmarshal,
              Checksum = exChecksum\<rparr>"

text \<open>
  A 16-byte storage key, two data keys created at seconds 100 and 200, the registry that
  holds them, an initialisation vector, an empty directory, and the registry's own file
  descriptor.
\<close>

definition exStorageKey :: bytes where
  "exStorageKey = [201, 14, 87, 3, 250, 66, 129, 40, 5, 178, 93, 221, 12, 147, 58, 31]"

definition exKey1 :: dataKey where
  "exKey1 = \<lparr>KeyID = 1, Data = [17, 17, 17, 17, 17, 17, 17, 17, 17, 17, 17, 17, 17, 17, 17, 17],
             IV = [7, 7, 7, 7, 7, 7, 7, 7, 7, 7, 7, 7, 7, 7, 7, 7], CreatedAt = 100\<rparr>"

definition exKey2 :: dataKey where
  "exKey2 = \<lparr>KeyID = 2, Data = [34, 34, 34, 34, 34, 34, 34, 34, 34, 34, 34, 34, 34, 34, 34, 34],
             IV = [8, 8, 8, 8, 8, 8, 8, 8, 8, 8, 8, 8, 8, 8, 8, 8], CreatedAt = 200\<rparr>"

definition exRegistryFile :: osFile where
  "exRegistryFile = \<lparr>fname = KeyRegistryFileName, readOnlyFd = False\<rparr>"

definition exRegistry :: KeyRegistry where
  "exRegistry = \<lparr>dataKeys = [1 \<mapsto> exKey1, 2 \<mapsto> exKey2], lastCreated = 200, nextKeyID = 2,
                 storageKey = exStorageKey, fp = Some exRegistryFile\<rparr>"

definition exIV :: bytes where
  "exIV = [3, 3, 3, 3, 3, 3, 3, 3, 3, 3, 3, 3, 3, 3, 3, 3]"

definition exWorld :: world where
  "exWorld = \<lparr>files = Map.empty, faults = [], syncs = []\<rparr>"

text \<open>
  The outside of \<^verbatim>\<open>getDataKey\<close> at a given time in nanoseconds: both clocks show it,
  \<^verbatim>\<open>y.GenereateIV\<close> returns \<open>exIV\<close> and \<^verbatim>\<open>rand.Read\<close> fills a slice from \<open>exRandom\<close>.
  \<open>exFreshRegistry sk\<close> is the registry of a directory that has no data key yet.
\<close>

definition exRandom :: bytes where
  "exRandom = [42, 191, 7, 230, 118, 9, 77, 164, 203, 55, 18, 240, 99, 136, 61, 172,
               84, 215, 26, 149, 101, 2, 233, 70, 187, 33, 122, 208, 15, 94, 159, 248]"

definition exEnv :: "int \<Rightarrow> kenv" where
  "exEnv now = \<lparr>nowNanos = now, nowUnix = now div 1000000000, genIV = Inr exIV,
                randRead = (\<lambda>n. take n exRandom)\<rparr>"

definition exFreshRegistry :: "bytes \<Rightarrow> KeyRegistry" where
  "exFreshRegistry sk = (newKeyRegistry sk)\<lparr>fp := Some exRegistryFile\<rparr>"

section \<open>Properties\<close>

subsection \<open>Which WAL files are kept and which are removed\<close>

text \<open>
  C1. The claim: of the enumerated WAL ids, exactly those greater than \<^verbatim>\<open>wal_head\<close> are
  kept for replay, and exactly those less than or equal to it are deleted when the
  store is not read-only. With the ids 1, 2 and 3 on disk, \<^verbatim>\<open>walhead = 2\<close> and a
  writable store, the loop keeps 1 and 2 for replay and removes 3: the test of line 74
  sends the ids above the head to \<^verbatim>\<open>os.Remove\<close> and the others to the replay list.
\<close>

theorem scanWalFiles_keeps_flushed_removes_live:
  "scanWalFiles (\<lambda>fid. None) False 2 [1, 2, 3] walScan0
     = Inr \<lparr>maxWalID = 3, filteredWALIDs = [1, 2], removedWALIDs = [3]\<rparr>"
  by (simp add: walScan0_def)

subsection \<open>Reads at or beyond the end of the active vlog\<close>

text \<open>
  C8. For a pointer whose file id is the current maximum vlog id, \<^verbatim>\<open>Read\<close> returns the
  invalid-pointer error, with no bytes and no callback, whenever the pointer's offset is
  greater than or equal to the active vlog's \<^verbatim>\<open>fileOffset()\<close>; the offset equal to
  \<^verbatim>\<open>fileOffset()\<close> is included.
\<close>

theorem Read_rejects_offset_at_or_beyond_end:
  "vlog lm = Some active \<Longrightarrow> Fid vp = maxVlogID lm \<Longrightarrow> fileOffset active \<le> Offset vp \<Longrightarrow>
     Read lfRead hdecode encrypted decryptKV lm vp
       = Done ([], None, Some (ErrInvalidPointer (Offset vp) (fileOffset active)))"
  by (simp add: Read_def)

theorem Read_rejects_offset_at_or_beyond_end_witness:
  "Read (\<lambda>lf vp. Inr [1, 2, 3]) (\<lambda>buf. (\<lparr>klen = 1, vlen = 1\<rparr>, 1)) (\<lambda>lf. False)
        (\<lambda>lf kv off. Inr kv)
        \<lparr>wal = None,
         vlog = Some \<lparr>lf_fid = 4, lf_path = (VLOG, 4), lf_offset = 100, lf_closed = False\<rparr>,
         entriesWritten = 0, maxVlogID = 4, vlogFileMap = Map.empty, memoryMap = True\<rparr>
        \<lparr>Fid = 4, Len = 10, Offset = 100\<rparr>
     = Done ([], None, Some (ErrInvalidPointer 100 100))"
  using Read_rejects_offset_at_or_beyond_end
    [of "\<lparr>wal = None,
          vlog = Some \<lparr>lf_fid = 4, lf_path = (VLOG, 4), lf_offset = 100, lf_closed = False\<rparr>,
          entriesWritten = 0, maxVlogID = 4, vlogFileMap = Map.empty, memoryMap = True\<rparr>"
        "\<lparr>lf_fid = 4, lf_path = (VLOG, 4), lf_offset = 100, lf_closed = False\<rparr>"
        "\<lparr>Fid = 4, Len = 10, Offset = 100\<rparr>"
        "\<lambda>lf vp. Inr [1, 2, 3]" "\<lambda>buf. (\<lparr>klen = 1, vlen = 1\<rparr>, 1)" "\<lambda>lf. False"
        "\<lambda>lf kv off. Inr kv"]
  by (simp add: fileOffset_def)

subsection \<open>Entries that belong to no transaction\<close>

lemma iterLoop_batch_offsets:
  "fst (iterLoop c lerr ts es roff voff ps) = fst (iterLoop c lerr ts es roff' voff' ps)"
proof (induction ps arbitrary: ts es roff voff roff' voff')
  case Nil
  show ?case by simp
next
  case (Cons e ps)
  show ?case
    by (simp add: Let_def
          Cons.IH [of _ _ "roff + entryLen e" voff "roff' + entryLen e" voff']
          split: sum.splits)
qed

lemma iterLoop_skip:
  "\<not> meta e AND bitTxn c > 0 \<Longrightarrow> \<not> meta e AND bitFinTxn c > 0 \<Longrightarrow>
   fst (iterLoop c lerr ts es roff voff (pre @ e # post))
     = fst (iterLoop c lerr ts es roff voff (pre @ post))"
proof (induction pre arbitrary: ts es roff voff)
  case Nil
  then show ?case
    using iterLoop_batch_offsets [of c lerr ts es "roff + entryLen e" voff post roff voff]
    by (simp add: Let_def)
next
  case (Cons x pre)
  then show ?case
    by (simp add: Let_def split: sum.splits)
qed

lemma iterLoop_txn_only:
  "list_all (\<lambda>x. meta x AND bitTxn c > 0) es \<Longrightarrow>
   list_all (\<lambda>x. meta x AND bitTxn c > 0) (fst (fst (iterLoop c lerr ts es roff voff ps)))"
  by (induction ps arbitrary: ts es roff voff) (auto simp: Let_def split: sum.splits)

lemma fst_iterateEntries:
  "fst (iterateEntries c it)
     = fst (iterLoop c (lastErr it) 0 [] (recordOffset it) (validOffset it) (pending it))"
  by (simp add: iterateEntries_def case_prod_unfold)

text \<open>
  C9. An entry that \<^verbatim>\<open>entryReader.Entry\<close> decodes and whose meta has neither the TXN bit
  nor the FIN-TXN bit is dropped by \<^verbatim>\<open>iterateEntries\<close>: at the head of the stream the loop
  goes on with the same commit timestamp and the same collected entries and only the
  record offset moved past it; wherever it stands in the stream, the returned entries,
  timestamp and error are those of the stream without it; and it is not among the
  returned entries.
\<close>

theorem iterateEntries_drops_plain_entry:
  assumes "\<not> meta e AND bitTxn c > 0" and "\<not> meta e AND bitFinTxn c > 0"
  shows "iterLoop c lerr ts es roff voff (e # post)
           = iterLoop c lerr ts es (roff + entryLen e) voff post
         \<and> fst (iterateEntries c (it\<lparr>pending := pre @ e # post\<rparr>))
           = fst (iterateEntries c (it\<lparr>pending := pre @ post\<rparr>))
         \<and> e \<notin> set (fst (fst (iterateEntries c (it\<lparr>pending := pre @ e # post\<rparr>))))"
proof -
  have head: "iterLoop c lerr ts es roff voff (e # post)
      = iterLoop c lerr ts es (roff + entryLen e) voff post"
    using assms by (simp add: Let_def)
  have same: "fst (iterateEntries c (it\<lparr>pending := pre @ e # post\<rparr>))
      = fst (iterateEntries c (it\<lparr>pending := pre @ post\<rparr>))"
    using iterLoop_skip [OF assms, of "lastErr it" 0 "[]" "recordOffset it" "validOffset it"
        pre post]
    by (simp add: fst_iterateEntries)
  have "list_all (\<lambda>x. meta x AND bitTxn c > 0)
      (fst (fst (iterLoop c (lastErr it) 0 [] (recordOffset it) (validOffset it)
                   (pre @ e # post))))"
    by (rule iterLoop_txn_only) simp
  then have "e \<notin> set (fst (fst (iterLoop c (lastErr it) 0 [] (recordOffset it)
      (validOffset it) (pre @ e # post))))"
    using assms(1) by (auto simp: list_all_iff)
  then have absent: "e \<notin> set (fst (fst (iterateEntries c (it\<lparr>pending := pre @ e # post\<rparr>))))"
    by (simp add: fst_iterateEntries)
  from head same absent show ?thesis by blast
qed

theorem iterateEntries_drops_plain_entry_witness:
  "iterLoop exDeps IoEOF 0 [] 20 0 [exPlainEntry, exTxnEntry 1 7 25, exFinEntry 7 41]
     = iterLoop exDeps IoEOF 0 [] (20 + entryLen exPlainEntry) 0 [exTxnEntry 1 7 25, exFinEntry 7 41]
   \<and> fst (iterateEntries exDeps
        \<lparr>source = (WAL, 1), pending = [exTxnEntry 1 7 20] @ exPlainEntry # [exFinEntry 7 36],
         lastErr = IoEOF, recordOffset = 20, validOffset = 0\<rparr>)
     = ([exTxnEntry 1 7 20], 7, None)
   \<and> exPlainEntry \<notin> set (fst (fst (iterateEntries exDeps
        \<lparr>source = (WAL, 1), pending = [exTxnEntry 1 7 20] @ exPlainEntry # [exFinEntry 7 36],
         lastErr = IoEOF, recordOffset = 20, validOffset = 0\<rparr>)))"
proof -
  have a: "\<not> meta exPlainEntry AND bitTxn exDeps > 0"
    by (simp add: exPlainEntry_def exDeps_def)
  have b: "\<not> meta exPlainEntry AND bitFinTxn exDeps > 0"
    by (simp add: exPlainEntry_def exDeps_def)
  have r: "fst (iterateEntries exDeps
        \<lparr>source = (WAL, 1), pending = [exTxnEntry 1 7 20] @ [exFinEntry 7 36],
         lastErr = IoEOF, recordOffset = 20, validOffset = 0\<rparr>)
     = ([exTxnEntry 1 7 20], 7, None)"
    by (simp add: iterateEntries_def exDeps_def exTxnEntry_def exFinEntry_def beUint64_def
          ParseUint_def Let_def)
  let ?it = "\<lparr>source = (WAL, 1), pending = [], lastErr = IoEOF, recordOffset = 20,
              validOffset = 0\<rparr>"
  note t = iterateEntries_drops_plain_entry [OF a b,
      where lerr = IoEOF and ts = 0 and es = "[]" and roff = 20 and voff = 0
        and post = "[exFinEntry 7 36]" and it = ?it and pre = "[exTxnEntry 1 7 20]"]
  note u = iterateEntries_drops_plain_entry [OF a b,
      where lerr = IoEOF and ts = 0 and es = "[]" and roff = 20 and voff = 0
        and post = "[exTxnEntry 1 7 25, exFinEntry 7 41]" and it = ?it and pre = "[]"]
  from u [THEN conjunct1] have c1: "iterLoop exDeps IoEOF 0 [] 20 0 [exPlainEntry, exTxnEntry 1 7 25, exFinEntry 7 41]
     = iterLoop exDeps IoEOF 0 [] (20 + entryLen exPlainEntry) 0 [exTxnEntry 1 7 25, exFinEntry 7 41]"
    by simp
  from t [THEN conjunct2, THEN conjunct1] r have c2: "fst (iterateEntries exDeps
        \<lparr>source = (WAL, 1), pending = [exTxnEntry 1 7 20] @ exPlainEntry # [exFinEntry 7 36],
         lastErr = IoEOF, recordOffset = 20, validOffset = 0\<rparr>)
     = ([exTxnEntry 1 7 20], 7, None)"
    by simp
  from t [THEN conjunct2, THEN conjunct2] have c3: "exPlainEntry \<notin> set (fst (fst (iterateEntries exDeps
        \<lparr>source = (WAL, 1), pending = [exTxnEntry 1 7 20] @ exPlainEntry # [exFinEntry 7 36],
         lastErr = IoEOF, recordOffset = 20, validOffset = 0\<rparr>)))"
    by simp
  from c1 c2 c3 show ?thesis by blast
qed

subsection \<open>Nothing to replay\<close>

text \<open>
  C10. When the list of WAL ids is empty, \<^verbatim>\<open>replay\<close> returns success at once: no file is
  opened, bootstrapped, read or closed and the callback is not called, whatever the
  list of vlog ids.
\<close>

theorem replay_empty_wal_list:
  "walIDs lp = [] \<Longrightarrow> replay c d replayFn lp = (Done (), [])"
  by (simp add: replay_def)

theorem replay_empty_wal_list_witness:
  "replay exDeps (exDisk (\<lambda>p. 20) (\<lambda>p. ([], IoEOF))) (\<lambda>e vp. None)
     \<lparr>walIDs = [], vlogIDs = [1, 2], vhead = emptyPointer,
      opt = \<lparr>ReadOnly = False, SyncWrites = False\<rparr>\<rparr> = (Done (), [])"
  using replay_empty_wal_list
    [of "\<lparr>walIDs = [], vlogIDs = [1, 2], vhead = emptyPointer,
          opt = \<lparr>ReadOnly = False, SyncWrites = False\<rparr>\<rparr>"
        exDeps "exDisk (\<lambda>p. 20) (\<lambda>p. ([], IoEOF))" "\<lambda>e vp. None"]
  by simp

subsection \<open>Replaying two streams\<close>

lemmas replay_eval =
  replay_def exReplayer_def exDisk_def without_def openFlags_def openLog_def
  bootstrapIfShort_def fileOffset_def vlogHeaderSize_def newLogIterator_def emptyPointer_def
  iterateEntries_def exDeps_def exTxnEntry_def exFinEntry_def beUint64_def ParseUint_def
  Let_def entryLen_def replayStep_def advanceWal_def advanceVlog_def replayBatches_def
  isTruncateNeeded_def finish_def vlogPointer_def errList_def

text \<open>
  C2. The claim: in every iteration of the replay loop the WAL batch comes from
  \<^verbatim>\<open>iterateEntries\<close> on the WAL iterator and the vlog batch from \<^verbatim>\<open>iterateEntries\<close> on
  the vlog iterator. On \<open>twoBatchDisk\<close> the first pair of batches is read that way
  (lines 305-306) and replayed. The next pair is read at lines 439-440, both from the WAL
  iterator: the WAL's transaction 8 becomes the WAL batch, the WAL's end of file becomes
  the vlog batch, the vlog iterator is not called again and transaction 8 is never
  replayed; the replayer takes the vlog to have ended at byte 45 of 70 and gives up.
\<close>

theorem replay_reads_vlog_batch_from_wal_iterator:
  "replay exDeps twoBatchDisk (\<lambda>e vp. None) (exReplayer [1] [1]) =
     (Panic ''Sup implement this guy.'',
      [Opened (VLOG, 1) NoFlag, Sought (VLOG, 1) 20,
       Opened (WAL, 1) NoFlag, Sought (WAL, 1) 20,
       Iterated (WAL, 1), Iterated (VLOG, 1),
       Replayed (exTxnEntry 1 7 20) emptyPointer,
       Replayed (exTxnEntry 2 7 20) \<lparr>Fid = 1, Len = 17, Offset = 20\<rparr>,
       Iterated (WAL, 1), Iterated (WAL, 1),
       Statted (VLOG, 1)])"
  by (simp add: replay_eval twoBatchDisk_def)

text \<open>
  C3. The claim: when the vlog stream is at end of file and the file's size equals its
  valid offset, the replayer closes the vlog file, opens the next id of the vlog family,
  bootstraps it if necessary and goes on iterating it. On \<open>rolledDisk\<close>, with WAL ids
  1 and 5 and vlog ids 1 and 2, the replayer closes \<^verbatim>\<open>000001.vlog\<close> and then opens the
  vlog file of id 5, the second WAL id (lines 387-388), which does not exist;
  \<^verbatim>\<open>000002.vlog\<close> is never opened and transaction 8 is never replayed.
\<close>

theorem replay_advances_vlog_by_wal_ids:
  "replay exDeps rolledDisk (\<lambda>e vp. None) (exReplayer [1, 5] [1, 2]) =
     (Failed (Wrapf ErrNotExist ''Error while opening WAL file in logReplayer''),
      [Opened (VLOG, 1) NoFlag, Sought (VLOG, 1) 20,
       Opened (WAL, 1) NoFlag, Sought (WAL, 1) 20,
       Iterated (WAL, 1), Iterated (VLOG, 1),
       Replayed (exTxnEntry 1 7 20) emptyPointer,
       Replayed (exTxnEntry 2 7 20) \<lparr>Fid = 1, Len = 17, Offset = 20\<rparr>,
       Iterated (WAL, 1), Iterated (WAL, 1),
       Statted (VLOG, 1), Closed (VLOG, 1), Opened (VLOG, 5) NoFlag])"
  by (simp add: replay_eval rolledDisk_def)

text \<open>
  C4. The claim: when the loop is left with \<^verbatim>\<open>truncateNeeded\<close> set, \<^verbatim>\<open>replay\<close> returns
  normally, and on every input \<^verbatim>\<open>replay\<close> either completes or returns an error, never
  aborting the process. On \<open>tornDisk\<close> the WAL iterator reports truncation, the loop is
  left with \<^verbatim>\<open>truncateNeeded\<close> set and line 444 panics.
\<close>

theorem replay_panics_when_truncate_needed:
  "replay exDeps tornDisk (\<lambda>e vp. None) (exReplayer [1] [1]) =
     (Panic ''Sup implement this guy.'',
      [Opened (VLOG, 1) NoFlag, Sought (VLOG, 1) 20,
       Opened (WAL, 1) NoFlag, Sought (WAL, 1) 20,
       Iterated (WAL, 1), Iterated (VLOG, 1)])"
  by (simp add: replay_eval tornDisk_def)

text \<open>A log without any damage does not fare better: after the only transaction has
  been replayed the WAL is closed and line 345 indexes \<^verbatim>\<open>lp.walIDs\<close> beyond its end.\<close>

lemma replay_clean_log_panics:
  "replay exDeps cleanDisk (\<lambda>e vp. None) (exReplayer [1] [1]) =
     (Panic ''index out of range'',
      [Opened (VLOG, 1) NoFlag, Sought (VLOG, 1) 20,
       Opened (WAL, 1) NoFlag, Sought (WAL, 1) 20,
       Iterated (WAL, 1), Iterated (VLOG, 1),
       Replayed (exTxnEntry 1 7 20) emptyPointer,
       Replayed (exTxnEntry 2 7 20) \<lparr>Fid = 1, Len = 17, Offset = 20\<rparr>,
       Iterated (WAL, 1), Iterated (WAL, 1), Statted (WAL, 1), Closed (WAL, 1)])"
  by (simp add: replay_eval cleanDisk_def)

subsection \<open>Entries that skip the value log\<close>

text \<open>
  C5. The claim: for an entry of a batch with \<^verbatim>\<open>skipVlog\<close> set, \<^verbatim>\<open>write\<close> appends exactly
  one empty pointer and encodes nothing for it into either buffer. For the request made
  of \<open>exSkipEntry\<close> and the two end entries, \<^verbatim>\<open>write\<close> returns four pointers for the
  three entries, two of them for \<open>exSkipEntry\<close>, and the WAL buffer starts with the ten
  bytes of \<open>exSkipEntry\<close>, before the two bytes of the end entry.
\<close>

theorem write_encodes_skipVlog_entry:
  "managerWrite exWdeps exManager [\<lparr>Entries = [exSkipEntry, exFinEntry 7 0, exFinEntry 7 0], Ptrs = []\<rparr>]
     = Done ([\<lparr>Entries = [exSkipEntry, exFinEntry 7 0, exFinEntry 7 0],
               Ptrs = [emptyPointer, emptyPointer, emptyPointer, emptyPointer]\<rparr>],
             exManager\<lparr>entriesWritten := 3\<rparr>,
             [64, 5, 0, 0, 0, 0, 0, 0, 0, 7, 1, 128, 55],
             [128, 55])"
  by (simp add: managerWrite_def writeEndEntries_def exWdeps_def exManager_def exSkipEntry_def
        exFinEntry_def fileOffset_def Let_def)

subsection \<open>Rewriting and reopening the key registry\<close>

lemmas registry_inputs =
  withinRotation_def RotationPeriod_def newKeyRegistry_def exFreshRegistry_def exEnv_def
  exRandom_def exIV_def exStorageKey_def exRegistryFile_def exWorld_def exKdeps_def
  exXORBlock_def exMarshal_def exUnmarshal_def exChecksum_def be64_def beUint64_def
  putUint32_def getUint32_def sanityText_def aesBlockSize_def KeyRegistryFileName_def
  KeyRegistryRewriteFileName_def exRegistry_def exKey1_def exKey2_def Let_def

lemmas registry_eval =
  rewriteThenOpen_def RewriteRegistry_def OpenKeyRegistry_def OpenExistingFile_def
  buildKeyRegistry_def readFrame_def absorbKey_def storeDataKey_def fileWrite_def
  FileSync_def popFault_def contentOf_def ReadAt_def registry_inputs

text \<open>
  C6. The claim: rewriting a registry to disk and reopening the file gives a registry
  with the same ids and the same decrypted materials. \<open>exRegistry\<close> holds the keys 1
  and 2 under a 16-byte storage key. When the map is ranged over with key 2 first, the
  file holds key 2 and then key 1; on reopening, line 144 stores each key under
  \<^verbatim>\<open>kr.nextKeyID\<close>, which is 2 for both records: the reopened registry has the single id
  2, and under it the material of key 1.
\<close>

theorem rewriteThenOpen_loses_key:
  "rewriteThenOpen exKdeps [2, 1] (Inr exIV) exRegistry exStorageKey exWorld
     = Inr \<lparr>dataKeys = [2 \<mapsto> exKey1], lastCreated = 200, nextKeyID = 2,
            storageKey = exStorageKey, fp = Some exRegistryFile\<rparr>"
  by (simp add: registry_eval)

text \<open>Ranged over with key 1 first, the same registry comes back whole.\<close>

lemma rewriteThenOpen_ascending:
  "rewriteThenOpen exKdeps [1, 2] (Inr exIV) exRegistry exStorageKey exWorld
     = Inr \<lparr>dataKeys = [1 \<mapsto> exKey1, 2 \<mapsto> exKey2], lastCreated = 200, nextKeyID = 2,
            storageKey = exStorageKey, fp = Some exRegistryFile\<rparr>"
  by (simp add: registry_eval)

subsection \<open>The current data key\<close>




end
